theory Spec2Isabelle
  imports
    Main
    "HOL-Library.Word"
    "HOL-Library.Stream"
    "HOL-Library.Signed_Division"
    "HOL-Library.AList"
    "HOL-Library.Sublist"
begin

unbundle bit_operations_syntax

section \<open>NuPlayer: the playback coordinator of frameworks/av\<close>

text \<open>
  A shallow embedding of \<^verbatim>\<open>media/libmediaplayerservice/nuplayer/NuPlayer.cpp\<close>.
  The member variables of \<^verbatim>\<open>NuPlayer\<close> form a record; every member function that the
  properties below talk about is a HOL function from the record to the record.  The
  collaborators (source, decoders, renderer, audio sink, driver, looper) are separate
  classes: a call made on one of them is appended to the field \<open>calls\<close>, and an answer
  a collaborator gives back is read from the collaborator's record or from the record
  \<open>platform\<close> of functions whose code lives outside this file.
  A failed \<^verbatim>\<open>CHECK\<close> and a call through a NULL strong pointer end the process; both are
  values of type \<open>abort\<close>.
\<close>

subsection \<open>Integers and status codes\<close>

type_synonym int32_t = "32 word"
type_synonym uint32_t = "32 word"
type_synonym int64_t = "64 word"
type_synonym status_t = "32 word"
type_synonym audio_format_t = "32 word"

text \<open>
  The status codes, listener codes, flags and message kinds are declared in headers
  that are not among the sources (\<^verbatim>\<open>utils/Errors.h\<close>, \<^verbatim>\<open>MediaErrors.h\<close>,
  \<^verbatim>\<open>mediaplayer.h\<close>, \<^verbatim>\<open>system/audio.h\<close>, \<^verbatim>\<open>ATSParser.h\<close>, \<^verbatim>\<open>NuPlayerSource.h\<close>,
  \<^verbatim>\<open>NuPlayerDecoder.h\<close>, \<^verbatim>\<open>NuPlayerRenderer.h\<close>, \<^verbatim>\<open>NuPlayer.h\<close>).  They have the values
  of those headers here; the coordinator only compares them with each other and tests
  single bits, so nothing below depends on more than their being distinct.
  \<^verbatim>\<open>-EWOULDBLOCK\<close> is written \<open>- EWOULDBLOCK\<close>.
\<close>

definition OK :: status_t where "OK = 0"
definition EWOULDBLOCK :: status_t where "EWOULDBLOCK = 11"
definition INVALID_OPERATION :: status_t where "INVALID_OPERATION = - 38"
definition UNKNOWN_ERROR :: status_t where "UNKNOWN_ERROR = 0x80000000"
definition ERROR_END_OF_STREAM :: status_t where "ERROR_END_OF_STREAM = - 1011"
definition INFO_DISCONTINUITY :: status_t where "INFO_DISCONTINUITY = - 1013"

definition MEDIA_PLAYBACK_COMPLETE :: int32_t where "MEDIA_PLAYBACK_COMPLETE = 2"
definition MEDIA_SET_VIDEO_SIZE :: int32_t where "MEDIA_SET_VIDEO_SIZE = 5"
definition MEDIA_STARTED :: int32_t where "MEDIA_STARTED = 6"
definition MEDIA_ERROR :: int32_t where "MEDIA_ERROR = 100"
definition MEDIA_INFO :: int32_t where "MEDIA_INFO = 200"
definition MEDIA_ERROR_UNKNOWN :: int32_t where "MEDIA_ERROR_UNKNOWN = 1"
definition MEDIA_INFO_RENDERING_START :: int32_t where "MEDIA_INFO_RENDERING_START = 3"

definition FLAG_DYNAMIC_DURATION :: uint32_t where "FLAG_DYNAMIC_DURATION = 16"
definition FLAG_SECURE :: uint32_t where "FLAG_SECURE = 32"

definition DISCONTINUITY_TIME :: int32_t where "DISCONTINUITY_TIME = 1"
definition DISCONTINUITY_AUDIO_FORMAT :: int32_t where "DISCONTINUITY_AUDIO_FORMAT = 2"
definition DISCONTINUITY_VIDEO_FORMAT :: int32_t where "DISCONTINUITY_VIDEO_FORMAT = 4"

definition AUDIO_OUTPUT_FLAG_NONE :: uint32_t where "AUDIO_OUTPUT_FLAG_NONE = 0"
definition AUDIO_OUTPUT_FLAG_DEEP_BUFFER :: uint32_t where "AUDIO_OUTPUT_FLAG_DEEP_BUFFER = 8"
definition AUDIO_OUTPUT_FLAG_COMPRESS_OFFLOAD :: uint32_t where
  "AUDIO_OUTPUT_FLAG_COMPRESS_OFFLOAD = 16"
definition AUDIO_FORMAT_PCM_16_BIT :: audio_format_t where "AUDIO_FORMAT_PCM_16_BIT = 1"
definition AUDIO_FORMAT_AAC :: audio_format_t where "AUDIO_FORMAT_AAC = 0x04000000"
definition AUDIO_STREAM_MUSIC :: int32_t where "AUDIO_STREAM_MUSIC = 3"
definition CHANNEL_MASK_USE_CHANNEL_ORDER :: int32_t where "CHANNEL_MASK_USE_CHANNEL_ORDER = 0"
definition AUDIO_SINK_MIN_DEEP_BUFFER_DURATION_US :: int64_t where
  "AUDIO_SINK_MIN_DEEP_BUFFER_DURATION_US = 5000000"

text \<open>Message kinds are four-character codes.\<close>

definition kWhatScanSources :: uint32_t where "kWhatScanSources = 0x7363616E"
definition kWhatVideoNotify :: uint32_t where "kWhatVideoNotify = 0x7669644E"
definition kWhatAudioNotify :: uint32_t where "kWhatAudioNotify = 0x6175644E"
definition kWhatClosedCaptionNotify :: uint32_t where "kWhatClosedCaptionNotify = 0x6361704E"

definition Decoder_kWhatFillThisBuffer :: int32_t where "Decoder_kWhatFillThisBuffer = 0x666C5442"
definition Decoder_kWhatDrainThisBuffer :: int32_t where "Decoder_kWhatDrainThisBuffer = 0x64725442"
definition Decoder_kWhatEOS :: int32_t where "Decoder_kWhatEOS = 0x656F7320"
definition Decoder_kWhatShutdownCompleted :: int32_t where
  "Decoder_kWhatShutdownCompleted = 0x73684443"
definition Decoder_kWhatFlushCompleted :: int32_t where "Decoder_kWhatFlushCompleted = 0x666C7343"
definition Decoder_kWhatOutputFormatChanged :: int32_t where
  "Decoder_kWhatOutputFormatChanged = 0x6F757443"
definition Decoder_kWhatError :: int32_t where "Decoder_kWhatError = 0x6572726F"

definition Renderer_kWhatEOS :: int32_t where "Renderer_kWhatEOS = 0x656F7320"
definition Renderer_kWhatFlushComplete :: int32_t where "Renderer_kWhatFlushComplete = 0x666C7543"
definition Renderer_kWhatPosition :: int32_t where "Renderer_kWhatPosition = 0x706F7369"
definition Renderer_kWhatVideoRenderingStart :: int32_t where
  "Renderer_kWhatVideoRenderingStart = 0x76647264"
definition Renderer_kWhatMediaRenderingStart :: int32_t where
  "Renderer_kWhatMediaRenderingStart = 0x6D647264"
definition Renderer_kWhatAudioOffloadTearDown :: int32_t where
  "Renderer_kWhatAudioOffloadTearDown = 0x614F5444"

subsection \<open>Messages and buffers\<close>

text \<open>
  Modelled from the spec: \<^verbatim>\<open>AMessage\<close> and \<^verbatim>\<open>ABuffer\<close> are not among the sources.  A
  message is a tagged record with a kind (\<open>what\<close>), the handler it is posted to
  (\<open>target\<close>) and a key/value payload; an item is found only under its own type, and
  setting a name that is already there replaces the item.  A strong pointer stored in
  a message may be NULL, hence the \<open>option\<close> under \<open>Message\<close> and \<open>Buffer\<close>.
\<close>

datatype item =
    Int32 int32_t
  | Int64 int64_t
  | AString string
  | Rect int32_t int32_t int32_t int32_t
  | Message "amessage option"
  | Buffer "abuffer option"
and amessage = AMessage (what: uint32_t) (target: nat) (items: "(string \<times> item) list")
and abuffer = ABuffer (bytes: "8 word list") (meta: amessage)

definition findInt32 :: "amessage \<Rightarrow> string \<Rightarrow> int32_t option" where
  "findInt32 m k = (case map_of (items m) k of Some (Int32 v) \<Rightarrow> Some v | _ \<Rightarrow> None)"

definition findInt64 :: "amessage \<Rightarrow> string \<Rightarrow> int64_t option" where
  "findInt64 m k = (case map_of (items m) k of Some (Int64 v) \<Rightarrow> Some v | _ \<Rightarrow> None)"

definition findString :: "amessage \<Rightarrow> string \<Rightarrow> string option" where
  "findString m k = (case map_of (items m) k of Some (AString v) \<Rightarrow> Some v | _ \<Rightarrow> None)"

definition findRect :: "amessage \<Rightarrow> string \<Rightarrow> (int32_t \<times> int32_t \<times> int32_t \<times> int32_t) option"
  where
  "findRect m k =
     (case map_of (items m) k of Some (Rect l t r b) \<Rightarrow> Some (l, t, r, b) | _ \<Rightarrow> None)"

definition findMessage :: "amessage \<Rightarrow> string \<Rightarrow> amessage option option" where
  "findMessage m k = (case map_of (items m) k of Some (Message v) \<Rightarrow> Some v | _ \<Rightarrow> None)"

definition findBuffer :: "amessage \<Rightarrow> string \<Rightarrow> abuffer option option" where
  "findBuffer m k = (case map_of (items m) k of Some (Buffer v) \<Rightarrow> Some v | _ \<Rightarrow> None)"

definition setItem :: "string \<Rightarrow> item \<Rightarrow> amessage \<Rightarrow> amessage" where
  "setItem k v m = AMessage (what m) (target m) (AList.update k v (items m))"

definition setInt32 :: "string \<Rightarrow> int32_t \<Rightarrow> amessage \<Rightarrow> amessage" where
  "setInt32 k v m = setItem k (Int32 v) m"

definition setBuffer :: "string \<Rightarrow> abuffer option \<Rightarrow> amessage \<Rightarrow> amessage" where
  "setBuffer k v m = setItem k (Buffer v) m"

text \<open>\<^verbatim>\<open>AString::c_str()\<close> read by a C string function: the characters before the first NUL.\<close>

definition c_str :: "string \<Rightarrow> string" where
  "c_str s = takeWhile (\<lambda>c. of_char c \<noteq> (0::nat)) s"

definition tolower :: "char \<Rightarrow> char" where
  "tolower c =
     (let n = (of_char c :: nat) in if 65 \<le> n \<and> n \<le> 90 then char_of (n + 32) else c)"

definition strcasecmp :: "string \<Rightarrow> string \<Rightarrow> bool" where
  \<comment> \<open>\<open>True\<close> stands for the result 0 (equal up to case).\<close>
  "strcasecmp a b = (map tolower a = map tolower b)"

definition MEDIA_MIMETYPE_VIDEO_AVC :: string where
  "MEDIA_MIMETYPE_VIDEO_AVC = ''video/avc''"

subsection \<open>Collaborators\<close>

text \<open>
  Modelled from the spec: the classes of the collaborators (\<^verbatim>\<open>Source\<close>, \<^verbatim>\<open>Decoder\<close>,
  \<^verbatim>\<open>DecoderPassThrough\<close>, \<^verbatim>\<open>CCDecoder\<close>, \<^verbatim>\<open>Renderer\<close>, \<^verbatim>\<open>AudioSink\<close>, \<^verbatim>\<open>ALooper\<close>,
  \<^verbatim>\<open>NativeWindowWrapper\<close>, \<^verbatim>\<open>NuPlayerDriver\<close>) and the struct \<^verbatim>\<open>audio_offload_info_t\<close> are
  not among the sources.  Of each only what the coordinator does with it is kept: the
  operations listed as its interface, as calls, and the answers it gives, as data.
\<close>

datatype NativeWindowWrapper = NativeWindowWrapper nat

text \<open>
  A decoder is one of the two classes the coordinator constructs, with the arguments
  of its constructor: the notify message (it carries the generation) and, for video,
  the native window.
\<close>

datatype Decoder =
    Decoder amessage "NativeWindowWrapper option"
  | DecoderPassThrough amessage

datatype CCDecoder = CCDecoder amessage

text \<open>
  The source as the coordinator sees it: the answers it currently gives to the
  queries, and for each stream the answers it will give to the successive calls of
  \<^verbatim>\<open>dequeueAccessUnit\<close> (a status and the access unit handed out with it).  Any
  sequence of answers is possible, so the sequence is a stream.  \<open>getFormat\<close> hands out
  a message of its own at every call.
\<close>

record Source =
  src_getFormat_audio :: "amessage option"
  src_getFormat_video :: "amessage option"
  src_getDuration :: "status_t \<times> int64_t"
  src_feedMoreTSData :: status_t
  src_setBuffers :: status_t
  src_accessUnits_audio :: "(status_t \<times> abuffer option) stream"
  src_accessUnits_video :: "(status_t \<times> abuffer option) stream"

definition getFormat :: "Source \<Rightarrow> bool \<Rightarrow> amessage option" where
  "getFormat src audio = (if audio then src_getFormat_audio src else src_getFormat_video src)"

definition dequeueAccessUnit :: "Source \<Rightarrow> bool \<Rightarrow> (status_t \<times> abuffer option) \<times> Source"
  where
  "dequeueAccessUnit src audio =
     (if audio
      then (shd (src_accessUnits_audio src),
            src\<lparr>src_accessUnits_audio := stl (src_accessUnits_audio src)\<rparr>)
      else (shd (src_accessUnits_video src),
            src\<lparr>src_accessUnits_video := stl (src_accessUnits_video src)\<rparr>))"

text \<open>
  Modelled from the spec: \<^verbatim>\<open>audio_offload_info_t\<close> is the C struct of \<^verbatim>\<open>system/audio.h\<close> that
  holds the offload parameters.  The coordinator compares two of them with \<^verbatim>\<open>memcmp\<close>
  over the size of the struct, so the record holds every byte of the struct: the
  members \<open>version\<close> and \<open>size\<close>, which the coordinator never assigns, the eight members
  it assigns, and \<open>padding\<close>, the bytes that belong to no member (the six bytes after
  \<open>is_streaming\<close>: the struct is 40 bytes long).  A \<^verbatim>\<open>bool\<close> member is one byte, 0 or 1.
  Two structs have the same bytes exactly when the two records are equal.
\<close>

record audio_offload_info_t =
  version :: "16 word"
  size :: "16 word"
  sample_rate :: uint32_t
  channel_mask :: int32_t
  format :: audio_format_t
  stream_type :: int32_t
  bit_rate :: uint32_t
  duration_us :: int64_t
  has_video :: bool
  is_streaming :: bool
  padding :: "8 word list"

definition AUDIO_OFFLOAD_INFO_VERSION_CURRENT :: "16 word" where
  "AUDIO_OFFLOAD_INFO_VERSION_CURRENT = 1"

text \<open>
  Modelled from the spec: the initializer is a constant of the same header.  It holds
  the current version, the size of the struct, every parameter zero, and the padding of
  a constant object, which is zero.
\<close>

definition AUDIO_INFO_INITIALIZER :: audio_offload_info_t where
  "AUDIO_INFO_INITIALIZER =
     \<lparr>version = AUDIO_OFFLOAD_INFO_VERSION_CURRENT, size = 40,
      sample_rate = 0, channel_mask = 0, format = 0, stream_type = 0, bit_rate = 0,
      duration_us = 0, has_video = False, is_streaming = False,
      padding = replicate 6 0\<rparr>"

text \<open>The arguments of \<^verbatim>\<open>AudioSink::open\<close>.\<close>

record sink_open =
  so_sampleRate :: int32_t
  so_channelCount :: int32_t
  so_channelMask :: int32_t
  so_format :: audio_format_t
  so_bufferCount :: nat
  so_callback :: bool
  so_flags :: uint32_t
  so_offloadInfo :: "audio_offload_info_t option"

record AudioSink =
  sink_open_status :: "sink_open \<Rightarrow> status_t"
  sink_start_status :: status_t

datatype Renderer = Renderer nat

datatype ALooper = ALooper

text \<open>The weak pointer to the driver: NULL, or pointing to a driver that is gone or alive.\<close>

datatype NuPlayerDriver_wp = wp_NULL | wp_dead | wp_live

text \<open>The calls the coordinator makes on its collaborators.\<close>

datatype call =
    AMessage_post amessage int64_t
  | Source_seekTo int64_t
  | Source_stop
  | Source_setBuffers bool "abuffer list"
  | MediaBuffer_release abuffer
  | Decoder_init Decoder
  | Decoder_configure Decoder amessage
  | Decoder_signalFlush Decoder "amessage option"
  | Decoder_signalResume Decoder
  | Decoder_initiateShutdown Decoder
  | Decoder_signalUpdateFormat Decoder "amessage option"
  | CCDecoder_decode "abuffer option"
  | CCDecoder_display int64_t
  | Renderer_queueBuffer bool "abuffer option" "amessage option"
  | Renderer_queueEOS bool status_t
  | Renderer_flush bool
  | Renderer_signalTimeDiscontinuity
  | Renderer_signalAudioSinkChanged
  | Renderer_signalDisableOffloadAudio
  | AudioSink_close
  | AudioSink_open sink_open
  | AudioSink_start
  | sendMetaDataToHal
  | ALooper_unregisterHandler nat
  | ALooper_stop
  | native_window_set_scaling_mode NativeWindowWrapper int32_t
  | Driver_notifyPosition int64_t
  | Driver_notifySeekComplete
  | Driver_notifySetSurfaceComplete
  | Driver_notifyResetComplete
  | Driver_notifyFrameStats int64_t int64_t
  | Driver_notifyListener int32_t int32_t int32_t

subsection \<open>The coordinator's state\<close>

datatype FlushStatus =
    NONE
  | FLUSHING_DECODER
  | FLUSHING_DECODER_SHUTDOWN
  | SHUTTING_DOWN_DECODER
  | FLUSHED
  | SHUT_DOWN

datatype ActionFunc = performReset_func | performScanSources_func | performDecoderFlush_func

datatype Action =
    SeekAction int64_t
  | SetSurfaceAction "NativeWindowWrapper option"
  | ShutdownDecoderAction bool bool
  | PostMessageAction "amessage option"
  | SimpleAction ActionFunc

record NuPlayer =
  handlerID :: nat
  mDriver :: NuPlayerDriver_wp
  mSource :: "Source option"
  mSourceFlags :: uint32_t
  mCurrentPositionUs :: int64_t
  mNativeWindow :: "NativeWindowWrapper option"
  mAudioSink :: "AudioSink option"
  mVideoDecoder :: "Decoder option"
  mVideoIsAVC :: bool
  mOffloadAudio :: bool
  mCurrentOffloadInfo :: audio_offload_info_t
  mAudioDecoder :: "Decoder option"
  mCCDecoder :: "CCDecoder option"
  mRenderer :: "Renderer option"
  mRendererLooper :: "ALooper option"
  mAudioDecoderGeneration :: int32_t
  mVideoDecoderGeneration :: int32_t
  mDeferredActions :: "Action list"
  mAudioEOS :: bool
  mVideoEOS :: bool
  mScanSourcesPending :: bool
  mScanSourcesGeneration :: int32_t
  mPollDurationGeneration :: int32_t
  mTimedTextGeneration :: int32_t
  mTimeDiscontinuityPending :: bool
  mFlushingAudio :: FlushStatus
  mFlushingVideo :: FlushStatus
  mSkipRenderingAudioUntilMediaTimeUs :: int64_t
  mSkipRenderingVideoUntilMediaTimeUs :: int64_t
  mVideoLateByUs :: int64_t
  mNumFramesTotal :: int64_t
  mNumFramesDropped :: int64_t
  mVideoScalingMode :: int32_t
  mStarted :: bool
  calls :: "call list"

text \<open>
  Functions used by the coordinator whose code is in other files; they are parameters
  of everything that follows.  \<open>mapMimeToAudioFormat\<close> gives \<open>None\<close> for a status other
  than \<open>OK\<close>; the other functions are queries on collaborators.

  The last parameter is not a function of the program.  \<^verbatim>\<open>openAudioSink\<close> builds the
  offload parameters in a local struct, initialised by copying \<^verbatim>\<open>AUDIO_INFO_INITIALIZER\<close>,
  and the language does not say which bytes the padding of the copy holds: those of the
  initializer, or what the stack held.  \<open>offloadInfo_padding P s\<close> is what it holds when
  the function is called in the state \<open>s\<close>; it need not be the same at every call.
\<close>

record platform =
  IsAVCReferenceFrame :: "abuffer \<Rightarrow> bool"
  mapMimeToAudioFormat :: "string \<Rightarrow> audio_format_t option"
  mapAACProfileToAudioFormat :: "audio_format_t \<Rightarrow> int32_t \<Rightarrow> audio_format_t"
  supportsSeamlessFormatChange :: "Decoder \<Rightarrow> amessage option \<Rightarrow> bool"
  getInputBuffers :: "Decoder \<Rightarrow> status_t \<times> abuffer list"
  isSelected :: "CCDecoder \<Rightarrow> bool"
  set_scaling_mode :: "NativeWindowWrapper \<Rightarrow> int32_t \<Rightarrow> status_t"
  offloadInfo_padding :: "NuPlayer \<Rightarrow> 8 word list"

text \<open>
  The ways a function of the coordinator ends without returning: a failed \<^verbatim>\<open>CHECK\<close>, a
  call through a NULL pointer, and the two integer divisions that the processor
  refuses, by zero and of the least \<^verbatim>\<open>int32_t\<close> by \<open>-1\<close>.
\<close>

datatype abort = CHECK_failed | NULL_dereference | Division_by_zero | Division_overflow

definition andThen :: "abort + 'a \<Rightarrow> ('a \<Rightarrow> abort + 'b) \<Rightarrow> abort + 'b" where
  "andThen r f = (case r of Inl e \<Rightarrow> Inl e | Inr x \<Rightarrow> f x)"

definition emit :: "call \<Rightarrow> NuPlayer \<Rightarrow> NuPlayer" where
  "emit c s = s\<lparr>calls := calls s @ [c]\<rparr>"

text \<open>The constructor, for the handler id the looper has given the player.\<close>

definition NATIVE_WINDOW_SCALING_MODE_SCALE_TO_WINDOW :: int32_t where
  "NATIVE_WINDOW_SCALING_MODE_SCALE_TO_WINDOW = 1"

definition NuPlayer_new :: "nat \<Rightarrow> NuPlayer" where
  "NuPlayer_new h =
     \<lparr>handlerID = h, mDriver = wp_NULL, mSource = None, mSourceFlags = 0,
      mCurrentPositionUs = 0, mNativeWindow = None, mAudioSink = None,
      mVideoDecoder = None, mVideoIsAVC = False, mOffloadAudio = False,
      mCurrentOffloadInfo = AUDIO_INFO_INITIALIZER, mAudioDecoder = None,
      mCCDecoder = None, mRenderer = None, mRendererLooper = None,
      mAudioDecoderGeneration = 0, mVideoDecoderGeneration = 0, mDeferredActions = [],
      mAudioEOS = False, mVideoEOS = False, mScanSourcesPending = False,
      mScanSourcesGeneration = 0, mPollDurationGeneration = 0, mTimedTextGeneration = 0,
      mTimeDiscontinuityPending = False, mFlushingAudio = NONE, mFlushingVideo = NONE,
      mSkipRenderingAudioUntilMediaTimeUs = - 1, mSkipRenderingVideoUntilMediaTimeUs = - 1,
      mVideoLateByUs = 0, mNumFramesTotal = 0, mNumFramesDropped = 0,
      mVideoScalingMode = NATIVE_WINDOW_SCALING_MODE_SCALE_TO_WINDOW, mStarted = False,
      calls = []\<rparr>"

definition getDecoder :: "bool \<Rightarrow> NuPlayer \<Rightarrow> Decoder option" where
  "getDecoder audio s = (if audio then mAudioDecoder s else mVideoDecoder s)"

fun IsFlushingState :: "FlushStatus \<Rightarrow> bool \<times> bool option" where
  \<comment> \<open>The result and the value written through \<^verbatim>\<open>needShutdown\<close>, if one is written.\<close>
  "IsFlushingState FLUSHING_DECODER = (True, Some False)"
| "IsFlushingState FLUSHING_DECODER_SHUTDOWN = (True, Some True)"
| "IsFlushingState _ = (False, None)"

definition notifyListener :: "int32_t \<Rightarrow> int32_t \<Rightarrow> int32_t \<Rightarrow> NuPlayer \<Rightarrow> NuPlayer" where
  "notifyListener msg ext1 ext2 s =
     (case mDriver s of
        wp_NULL \<Rightarrow> s
      | wp_dead \<Rightarrow> s
      | wp_live \<Rightarrow> emit (Driver_notifyListener msg ext1 ext2) s)"

subsection \<open>Flushing, scanning and the deferred actions\<close>

definition postScanSources :: "NuPlayer \<Rightarrow> NuPlayer" where
  "postScanSources s =
     (if mScanSourcesPending s then s
      else
        let msg = setInt32 ''generation'' (mScanSourcesGeneration s)
                    (AMessage kWhatScanSources (handlerID s) [])
        in (emit (AMessage_post msg 0) s)\<lparr>mScanSourcesPending := True\<rparr>)"

definition flushDecoder :: "bool \<Rightarrow> bool \<Rightarrow> amessage option \<Rightarrow> NuPlayer \<Rightarrow> abort + NuPlayer"
  where
  "flushDecoder audio needShutdown newFormat s =
     (case getDecoder audio s of
        None \<Rightarrow> Inr s
      | Some decoder \<Rightarrow>
          let s1 = s\<lparr>mScanSourcesGeneration := mScanSourcesGeneration s + 1,
                     mScanSourcesPending := False\<rparr>;
              s2 = emit (Decoder_signalFlush decoder newFormat) s1
          in (case mRenderer s2 of
                None \<Rightarrow> Inl NULL_dereference
              | Some r \<Rightarrow>
                  (let s3 = emit (Renderer_flush audio) s2;
                       newStatus =
                         (if needShutdown then FLUSHING_DECODER_SHUTDOWN else FLUSHING_DECODER)
                   in if audio then Inr (s3\<lparr>mFlushingAudio := newStatus\<rparr>)
                      else Inr (s3\<lparr>mFlushingVideo := newStatus\<rparr>))))"

definition updateDecoderFormatWithoutFlush :: "bool \<Rightarrow> amessage option \<Rightarrow> NuPlayer \<Rightarrow> NuPlayer"
  where
  "updateDecoderFormatWithoutFlush audio fmt s =
     (case getDecoder audio s of
        None \<Rightarrow> s
      | Some decoder \<Rightarrow> emit (Decoder_signalUpdateFormat decoder fmt) s)"

definition setVideoScalingMode :: "platform \<Rightarrow> int32_t \<Rightarrow> NuPlayer \<Rightarrow> status_t \<times> NuPlayer" where
  "setVideoScalingMode P mode s =
     (let s1 = s\<lparr>mVideoScalingMode := mode\<rparr>
      in case mNativeWindow s1 of
           None \<Rightarrow> (OK, s1)
         | Some w \<Rightarrow>
             let ret = set_scaling_mode P w (mVideoScalingMode s1);
                 s2 = emit (native_window_set_scaling_mode w (mVideoScalingMode s1)) s1
             in if ret \<noteq> OK then (ret, s2) else (OK, s2))"

definition cancelPollDuration :: "NuPlayer \<Rightarrow> NuPlayer" where
  "cancelPollDuration s = s\<lparr>mPollDurationGeneration := mPollDurationGeneration s + 1\<rparr>"

definition performSeek :: "int64_t \<Rightarrow> NuPlayer \<Rightarrow> abort + NuPlayer" where
  "performSeek seekTimeUs s =
     (case mSource s of
        None \<Rightarrow> Inl NULL_dereference
      | Some src \<Rightarrow>
          let s1 = emit (Source_seekTo seekTimeUs) s;
              s2 = s1\<lparr>mTimedTextGeneration := mTimedTextGeneration s1 + 1\<rparr>
          in (case mDriver s2 of
                wp_NULL \<Rightarrow> Inr s2
              | wp_dead \<Rightarrow> Inr s2
              | wp_live \<Rightarrow>
                  Inr (emit Driver_notifySeekComplete
                        (emit (Driver_notifyPosition seekTimeUs) s2))))"

definition performDecoderFlush :: "NuPlayer \<Rightarrow> abort + NuPlayer" where
  "performDecoderFlush s =
     (if mAudioDecoder s = None \<and> mVideoDecoder s = None then Inr s
      else
        let s1 = s\<lparr>mTimeDiscontinuityPending := True\<rparr>
        in andThen
             (if mAudioDecoder s1 \<noteq> None then flushDecoder True False None s1 else Inr s1)
             (\<lambda>s2. if mVideoDecoder s2 \<noteq> None then flushDecoder False False None s2
                    else Inr s2))"

definition performDecoderShutdown :: "bool \<Rightarrow> bool \<Rightarrow> NuPlayer \<Rightarrow> abort + NuPlayer" where
  "performDecoderShutdown audio video s =
     (if (\<not> audio \<or> mAudioDecoder s = None) \<and> (\<not> video \<or> mVideoDecoder s = None) then Inr s
      else
        let s1 = s\<lparr>mTimeDiscontinuityPending := True\<rparr>
        in andThen
             (if audio \<and> mAudioDecoder s1 \<noteq> None then flushDecoder True True None s1
              else Inr s1)
             (\<lambda>s2. if video \<and> mVideoDecoder s2 \<noteq> None then flushDecoder False True None s2
                    else Inr s2))"

definition performReset :: "NuPlayer \<Rightarrow> abort + NuPlayer" where
  "performReset s =
     (if mAudioDecoder s \<noteq> None then Inl CHECK_failed
      else if mVideoDecoder s \<noteq> None then Inl CHECK_failed
      else
        let s1 = cancelPollDuration s;
            s2 = s1\<lparr>mScanSourcesGeneration := mScanSourcesGeneration s1 + 1,
                      mScanSourcesPending := False\<rparr>;
            s3 = (case mRendererLooper s2 of
                    None \<Rightarrow> s2
                  | Some looper \<Rightarrow>
                      let t = (case mRenderer s2 of
                                 None \<Rightarrow> s2
                               | Some (Renderer rid) \<Rightarrow> emit (ALooper_unregisterHandler rid) s2)
                      in (emit ALooper_stop t)\<lparr>mRendererLooper := None\<rparr>);
            s4 = s3\<lparr>mRenderer := None\<rparr>;
            s5 = (case mSource s4 of
                    None \<Rightarrow> s4
                  | Some src \<Rightarrow> (emit Source_stop s4)\<lparr>mSource := None\<rparr>);
            s6 = (case mDriver s5 of
                    wp_NULL \<Rightarrow> s5
                  | wp_dead \<Rightarrow> s5
                  | wp_live \<Rightarrow> emit Driver_notifyResetComplete s5)
        in Inr (s6\<lparr>mStarted := False\<rparr>))"

definition performScanSources :: "NuPlayer \<Rightarrow> NuPlayer" where
  "performScanSources s =
     (if \<not> mStarted s then s
      else if mAudioDecoder s = None \<or> mVideoDecoder s = None then postScanSources s
      else s)"

definition performSetSurface :: "platform \<Rightarrow> NativeWindowWrapper option \<Rightarrow> NuPlayer \<Rightarrow> NuPlayer"
  where
  "performSetSurface P wrapper s =
     (let s1 = s\<lparr>mNativeWindow := wrapper\<rparr>;
          s2 = snd (setVideoScalingMode P (mVideoScalingMode s1) s1)
      in case mDriver s2 of
           wp_NULL \<Rightarrow> s2
         | wp_dead \<Rightarrow> s2
         | wp_live \<Rightarrow> emit Driver_notifySetSurfaceComplete s2)"

text \<open>\<^verbatim>\<open>Action::execute\<close>, one equation for each subclass.\<close>

fun execute :: "platform \<Rightarrow> Action \<Rightarrow> NuPlayer \<Rightarrow> abort + NuPlayer" where
  "execute P (SeekAction seekTimeUs) s = performSeek seekTimeUs s"
| "execute P (SetSurfaceAction wrapper) s = Inr (performSetSurface P wrapper s)"
| "execute P (ShutdownDecoderAction audio video) s = performDecoderShutdown audio video s"
| "execute P (PostMessageAction None) s = Inl NULL_dereference"
| "execute P (PostMessageAction (Some msg)) s = Inr (emit (AMessage_post msg 0) s)"
| "execute P (SimpleAction performReset_func) s = performReset s"
| "execute P (SimpleAction performScanSources_func) s = Inr (performScanSources s)"
| "execute P (SimpleAction performDecoderFlush_func) s = performDecoderFlush s"

lemma flushDecoder_mDeferredActions:
  "flushDecoder audio needShutdown newFormat s = Inr s' \<Longrightarrow>
     mDeferredActions s' = mDeferredActions s"
  by (auto simp: flushDecoder_def emit_def Let_def split: option.splits if_splits)

lemma execute_mDeferredActions:
  assumes "execute P action s = Inr s'"
  shows "mDeferredActions s' = mDeferredActions s"
proof (cases action)
  case (SeekAction t)
  with assms show ?thesis
    by (auto simp: performSeek_def emit_def Let_def
        split: option.splits NuPlayerDriver_wp.splits)
next
  case (SetSurfaceAction w)
  with assms show ?thesis
    by (auto simp: performSetSurface_def setVideoScalingMode_def emit_def Let_def
        split: option.splits NuPlayerDriver_wp.splits if_splits)
next
  case (ShutdownDecoderAction a v)
  with assms show ?thesis
    by (auto simp: performDecoderShutdown_def andThen_def Let_def
        split: if_splits sum.splits dest!: flushDecoder_mDeferredActions)
next
  case (PostMessageAction m)
  with assms show ?thesis by (cases m) (auto simp: emit_def)
next
  case (SimpleAction f)
  with assms show ?thesis
    by (cases f)
      (auto simp: performReset_def cancelPollDuration_def performScanSources_def
        postScanSources_def performDecoderFlush_def andThen_def emit_def Let_def
        split: if_splits sum.splits option.splits NuPlayerDriver_wp.splits Renderer.splits
        dest!: flushDecoder_mDeferredActions)
qed

function processDeferredActions :: "platform \<Rightarrow> NuPlayer \<Rightarrow> abort + NuPlayer" where
  "processDeferredActions P s =
     (case mDeferredActions s of
        [] \<Rightarrow> Inr s
      | action # rest \<Rightarrow>
          if mFlushingAudio s \<noteq> NONE \<or> mFlushingVideo s \<noteq> NONE then Inr s
          else
            (case execute P action (s\<lparr>mDeferredActions := rest\<rparr>) of
               Inl e \<Rightarrow> Inl e
             | Inr s' \<Rightarrow> processDeferredActions P s'))"
  by pat_completeness auto
termination
  by (relation "measure (\<lambda>(P, s). length (mDeferredActions s))")
    (auto dest!: execute_mDeferredActions)

declare processDeferredActions.simps [simp del]

definition finishFlushIfPossible :: "platform \<Rightarrow> NuPlayer \<Rightarrow> abort + NuPlayer" where
  "finishFlushIfPossible P s =
     (if mFlushingAudio s \<noteq> NONE \<and> mFlushingAudio s \<noteq> FLUSHED
           \<and> mFlushingAudio s \<noteq> SHUT_DOWN then Inr s
      else if mFlushingVideo s \<noteq> NONE \<and> mFlushingVideo s \<noteq> FLUSHED
           \<and> mFlushingVideo s \<noteq> SHUT_DOWN then Inr s
      else
        andThen
          (if mTimeDiscontinuityPending s
           then (case mRenderer s of
                   None \<Rightarrow> Inl NULL_dereference
                 | Some r \<Rightarrow>
                     Inr ((emit Renderer_signalTimeDiscontinuity s)
                            \<lparr>mTimeDiscontinuityPending := False\<rparr>))
           else Inr s)
          (\<lambda>s1.
             let s2 = (case mAudioDecoder s1 of
                         None \<Rightarrow> s1
                       | Some d \<Rightarrow>
                           if mFlushingAudio s1 = FLUSHED then emit (Decoder_signalResume d) s1
                           else s1);
                 s3 = (case mVideoDecoder s2 of
                         None \<Rightarrow> s2
                       | Some d \<Rightarrow>
                           if mFlushingVideo s2 = FLUSHED then emit (Decoder_signalResume d) s2
                           else s2)
             in processDeferredActions P (s3\<lparr>mFlushingAudio := NONE, mFlushingVideo := NONE\<rparr>)))"

subsection \<open>The audio sink\<close>

definition closeAudioSink :: "NuPlayer \<Rightarrow> abort + NuPlayer" where
  "closeAudioSink s =
     (case mAudioSink s of
        None \<Rightarrow> Inl NULL_dereference
      | Some sink \<Rightarrow>
          Inr ((emit AudioSink_close s)\<lparr>mCurrentOffloadInfo := AUDIO_INFO_INITIALIZER\<rparr>))"

text \<open>
  The second half of \<^verbatim>\<open>openAudioSink\<close>: the PCM sink, opened unless the call is for
  offload only or the sink is offloading, and the word to the renderer.
\<close>

definition openAudioSink_pcm ::
  "bool \<Rightarrow> int32_t \<Rightarrow> int32_t \<Rightarrow> int32_t \<Rightarrow> uint32_t \<Rightarrow> bool \<Rightarrow> NuPlayer \<Rightarrow> abort + NuPlayer"
  where
  "openAudioSink_pcm offloadOnly sampleRate numChannels channelMask flags audioSinkChanged s =
     andThen
       (if \<not> offloadOnly \<and> \<not> mOffloadAudio s
        then
          (case mAudioSink s of
             None \<Rightarrow> Inl NULL_dereference
           | Some sink \<Rightarrow>
               let flags1 = flags AND NOT AUDIO_OUTPUT_FLAG_COMPRESS_OFFLOAD;
                   s1 = (emit AudioSink_close s)\<lparr>mCurrentOffloadInfo := AUDIO_INFO_INITIALIZER\<rparr>;
                   args = \<lparr>so_sampleRate = sampleRate, so_channelCount = numChannels,
                           so_channelMask = channelMask, so_format = AUDIO_FORMAT_PCM_16_BIT,
                           so_bufferCount = 8, so_callback = False, so_flags = flags1,
                           so_offloadInfo = None\<rparr>;
                   s2 = emit (AudioSink_open args) s1
               in if sink_open_status sink args \<noteq> OK then Inl CHECK_failed
                  else Inr (True, emit AudioSink_start s2))
        else Inr (audioSinkChanged, s))
       (\<lambda>(changed, s3).
          if changed
          then (case mRenderer s3 of
                  None \<Rightarrow> Inl NULL_dereference
                | Some r \<Rightarrow> Inr (emit Renderer_signalAudioSinkChanged s3))
          else Inr s3)"

text \<open>
  The offload description that \<^verbatim>\<open>openAudioSink\<close> builds from the format once the MIME
  type is mapped to \<open>mapped\<close>: a copy of the initializer in which the eight parameters
  are assigned.  \<open>version\<close> and \<open>size\<close> are those of the initializer, and the padding is
  what the local struct holds at this call.  The source compares the struct with
  \<open>mCurrentOffloadInfo\<close> by \<^verbatim>\<open>memcmp\<close> over all its bytes, which is the equality of the two
  records.  The assignment of the struct to \<open>mCurrentOffloadInfo\<close> copies all its bytes.
\<close>

definition openAudioSink_offloadInfo ::
  "platform \<Rightarrow> amessage \<Rightarrow> int32_t \<Rightarrow> int32_t \<Rightarrow> audio_format_t \<Rightarrow> NuPlayer
     \<Rightarrow> audio_offload_info_t"
  where
  "openAudioSink_offloadInfo P fmt sampleRate channelMask mapped s =
     (let avgBitRate = (case findInt32 fmt ''bit-rate'' of None \<Rightarrow> - 1 | Some b \<Rightarrow> b);
          audioFormat =
            (if mapped = AUDIO_FORMAT_AAC
             then (case findInt32 fmt ''aac-profile'' of
                     None \<Rightarrow> mapped
                   | Some aacProfile \<Rightarrow> mapAACProfileToAudioFormat P mapped aacProfile)
             else mapped)
      in AUDIO_INFO_INITIALIZER
           \<lparr>padding := offloadInfo_padding P s,
            duration_us := (case findInt64 fmt ''durationUs'' of None \<Rightarrow> - 1 | Some d \<Rightarrow> d),
            sample_rate := sampleRate, channel_mask := channelMask, format := audioFormat,
            stream_type := AUDIO_STREAM_MUSIC, bit_rate := avgBitRate,
            has_video := (mVideoDecoder s \<noteq> None), is_streaming := True\<rparr>)"

definition openAudioSink :: "platform \<Rightarrow> amessage option \<Rightarrow> bool \<Rightarrow> NuPlayer \<Rightarrow> abort + NuPlayer"
  where
  "openAudioSink P format0 offloadOnly s =
     (case format0 of
        None \<Rightarrow> Inl NULL_dereference
      | Some fmt \<Rightarrow>
     (case findInt32 fmt ''channel-count'' of
        None \<Rightarrow> Inl CHECK_failed
      | Some numChannels \<Rightarrow>
     (let channelMask =
            (case findInt32 fmt ''channel-mask'' of
               None \<Rightarrow> CHANNEL_MASK_USE_CHANNEL_ORDER
             | Some m \<Rightarrow> m)
      in
     (case findInt32 fmt ''sample-rate'' of
        None \<Rightarrow> Inl CHECK_failed
      | Some sampleRate \<Rightarrow>
     andThen
       (if mVideoDecoder s = None
        then (case mSource s of
                None \<Rightarrow> Inl NULL_dereference
              | Some src \<Rightarrow>
                  Inr (if fst (src_getDuration src) = OK
                          \<and> AUDIO_SINK_MIN_DEEP_BUFFER_DURATION_US <s snd (src_getDuration src)
                       then AUDIO_OUTPUT_FLAG_DEEP_BUFFER
                       else AUDIO_OUTPUT_FLAG_NONE))
        else Inr AUDIO_OUTPUT_FLAG_NONE)
       (\<lambda>flags.
          if mOffloadAudio s
          then
            (case findString fmt ''mime'' of
               None \<Rightarrow> Inl CHECK_failed
             | Some mime \<Rightarrow>
            (case mapMimeToAudioFormat P (c_str mime) of
               None \<Rightarrow>
                 openAudioSink_pcm offloadOnly sampleRate numChannels channelMask flags False
                   (s\<lparr>mOffloadAudio := False\<rparr>)
             | Some mapped \<Rightarrow>
                 let offloadInfo =
                       openAudioSink_offloadInfo P fmt sampleRate channelMask mapped s;
                     audioFormat = format offloadInfo
                 in
                   if mCurrentOffloadInfo s = offloadInfo then Inr s
                   else
                     (case mAudioSink s of
                        None \<Rightarrow> Inl NULL_dereference
                      | Some sink \<Rightarrow>
                     (let flags1 = (flags OR AUDIO_OUTPUT_FLAG_COMPRESS_OFFLOAD)
                                     AND NOT AUDIO_OUTPUT_FLAG_DEEP_BUFFER;
                          args = \<lparr>so_sampleRate = sampleRate, so_channelCount = numChannels,
                                  so_channelMask = channelMask, so_format = audioFormat,
                                  so_bufferCount = 8, so_callback = True, so_flags = flags1,
                                  so_offloadInfo = Some offloadInfo\<rparr>;
                          s1 = emit (AudioSink_open args) (emit AudioSink_close s);
                          err = sink_open_status sink args
                      in
                        andThen
                          (if err = OK
                           then (case mSource s1 of
                                   None \<Rightarrow> Inl NULL_dereference
                                 | Some src \<Rightarrow>
                                     Inr (sink_start_status sink,
                                          emit AudioSink_start
                                            ((emit sendMetaDataToHal s1)
                                               \<lparr>mCurrentOffloadInfo := offloadInfo\<rparr>)))
                           else Inr (err, s1))
                          (\<lambda>(err1, s2).
                             andThen
                               (if err1 \<noteq> OK
                                then (case mRenderer s2 of
                                        None \<Rightarrow> Inl NULL_dereference
                                      | Some r \<Rightarrow>
                                          Inr ((emit Renderer_signalDisableOffloadAudio
                                                  (emit AudioSink_close s2))
                                                 \<lparr>mOffloadAudio := False,
                                                  mCurrentOffloadInfo :=
                                                    AUDIO_INFO_INITIALIZER\<rparr>))
                                else Inr s2)
                               (openAudioSink_pcm offloadOnly sampleRate numChannels
                                  channelMask flags1 True))))))
          else openAudioSink_pcm offloadOnly sampleRate numChannels channelMask flags False s)))))"

subsection \<open>Decoder instantiation\<close>

text \<open>
  \<^verbatim>\<open>instantiateDecoder(audio, decoder)\<close>: every caller passes the address of the member
  that belongs to \<open>audio\<close>, so the member is chosen by \<open>audio\<close> here.
\<close>

definition setDecoder :: "bool \<Rightarrow> Decoder option \<Rightarrow> NuPlayer \<Rightarrow> NuPlayer" where
  "setDecoder audio d s = (if audio then s\<lparr>mAudioDecoder := d\<rparr> else s\<lparr>mVideoDecoder := d\<rparr>)"

definition instantiateDecoder :: "platform \<Rightarrow> bool \<Rightarrow> NuPlayer \<Rightarrow> abort + status_t \<times> NuPlayer"
  where
  "instantiateDecoder P audio s =
     (if getDecoder audio s \<noteq> None then Inr (OK, s)
      else
     (case mSource s of
        None \<Rightarrow> Inl NULL_dereference
      | Some src \<Rightarrow>
     (case getFormat src audio of
        None \<Rightarrow> Inr (- EWOULDBLOCK, s)
      | Some format0 \<Rightarrow>
     andThen
       (if \<not> audio
        then (case findString format0 ''mime'' of
                None \<Rightarrow> Inl CHECK_failed
              | Some mime \<Rightarrow>
                  Inr (if mSourceFlags s AND FLAG_SECURE \<noteq> 0
                       then setInt32 ''secure'' 1 format0 else format0,
                       s\<lparr>mVideoIsAVC := strcasecmp MEDIA_MIMETYPE_VIDEO_AVC (c_str mime),
                         mCCDecoder :=
                           Some (CCDecoder (AMessage kWhatClosedCaptionNotify (handlerID s) []))\<rparr>))
        else Inr (format0, s))
       (\<lambda>(fmt, s1).
          let s2 = (if audio
                    then s1\<lparr>mAudioDecoderGeneration := mAudioDecoderGeneration s1 + 1\<rparr>
                    else s1\<lparr>mVideoDecoderGeneration := mVideoDecoderGeneration s1 + 1\<rparr>);
              decoder =
                (if audio
                 then
                   (let notify = setInt32 ''generation'' (mAudioDecoderGeneration s2)
                                   (AMessage kWhatAudioNotify (handlerID s2) [])
                    in if mOffloadAudio s2 then DecoderPassThrough notify
                       else Decoder notify None)
                 else
                   (let notify = setInt32 ''generation'' (mVideoDecoderGeneration s2)
                                   (AMessage kWhatVideoNotify (handlerID s2) [])
                    in Decoder notify (mNativeWindow s2)));
              s3 = emit (Decoder_configure decoder fmt)
                     (emit (Decoder_init decoder) (setDecoder audio (Some decoder) s2))
          in
            if \<not> audio \<and> mSourceFlags s3 AND FLAG_SECURE \<noteq> 0
            then
              (if fst (getInputBuffers P decoder) \<noteq> OK then Inl CHECK_failed
               else
                 let mediaBufs = snd (getInputBuffers P decoder);
                     s4 = emit (Source_setBuffers audio mediaBufs) s3
                 in if src_setBuffers src \<noteq> OK
                    then Inr (src_setBuffers src,
                              s4\<lparr>calls := calls s4 @ map MediaBuffer_release mediaBufs\<rparr>)
                    else Inr (OK, s4))
            else Inr (OK, s3)))))"

subsection \<open>Feeding a decoder\<close>

definition postReply :: "amessage option \<Rightarrow> NuPlayer \<Rightarrow> abort + NuPlayer" where
  \<comment> \<open>\<^verbatim>\<open>reply->post()\<close> through the pointer found in the request.\<close>
  "postReply reply s =
     (case reply of
        None \<Rightarrow> Inl NULL_dereference
      | Some r \<Rightarrow> Inr (emit (AMessage_post r 0) s))"

definition replyErr :: "amessage option \<Rightarrow> status_t \<Rightarrow> NuPlayer \<Rightarrow> abort + NuPlayer" where
  \<comment> \<open>\<^verbatim>\<open>reply->setInt32("err", err); reply->post();\<close>\<close>
  "replyErr reply err s = postReply (map_option (setInt32 ''err'' err) reply) s"

text \<open>
  The branch \<^verbatim>\<open>else if (err != OK)\<close> of the dequeue loop: a discontinuity is looked
  at and may start a flush; the status is written into the reply.
\<close>

definition feedDecoderInputData_error ::
  "platform \<Rightarrow> bool \<Rightarrow> amessage option \<Rightarrow> status_t \<Rightarrow> abuffer option \<Rightarrow> Source \<Rightarrow> NuPlayer
     \<Rightarrow> abort + status_t \<times> NuPlayer"
  where
  "feedDecoderInputData_error P audio reply err accessUnit src s =
     (if err = INFO_DISCONTINUITY
      then
        (case accessUnit of
           None \<Rightarrow> Inl NULL_dereference
         | Some au \<Rightarrow>
        (case findInt32 (meta au) ''discontinuity'' of
           None \<Rightarrow> Inl CHECK_failed
         | Some type \<Rightarrow>
        (let formatChange0 =
               ((audio \<and> type AND DISCONTINUITY_AUDIO_FORMAT \<noteq> 0)
                \<or> (\<not> audio \<and> type AND DISCONTINUITY_VIDEO_FORMAT \<noteq> 0));
             timeChange = (type AND DISCONTINUITY_TIME \<noteq> 0);
             s1 = (if audio then s\<lparr>mSkipRenderingAudioUntilMediaTimeUs := - 1\<rparr>
                   else s\<lparr>mSkipRenderingVideoUntilMediaTimeUs := - 1\<rparr>);
             s2 = (if timeChange
                   then (case findMessage (meta au) ''extra'' of
                           Some (Some extra) \<Rightarrow>
                             (case findInt64 extra ''resume-at-mediatimeUs'' of
                                None \<Rightarrow> s1
                              | Some resumeAtMediaTimeUs \<Rightarrow>
                                  if audio
                                  then s1\<lparr>mSkipRenderingAudioUntilMediaTimeUs :=
                                            resumeAtMediaTimeUs\<rparr>
                                  else s1\<lparr>mSkipRenderingVideoUntilMediaTimeUs :=
                                            resumeAtMediaTimeUs\<rparr>)
                         | _ \<Rightarrow> s1)
                   else s1);
             s3 = s2\<lparr>mTimeDiscontinuityPending := (mTimeDiscontinuityPending s2 \<or> timeChange)\<rparr>;
             newFormat = getFormat src audio
         in
           andThen
             (if formatChange0
              then (case getDecoder audio s3 of
                      None \<Rightarrow> Inl NULL_dereference
                    | Some d \<Rightarrow> Inr (supportsSeamlessFormatChange P d newFormat))
              else Inr False)
             (\<lambda>seamlessFormatChange.
                let formatChange = (formatChange0 \<and> \<not> seamlessFormatChange);
                    shutdownOrFlush = (formatChange \<or> timeChange);
                    s4 = (if mFlushingAudio s3 = NONE \<and> mFlushingVideo s3 = NONE
                             \<and> shutdownOrFlush
                          then s3\<lparr>mDeferredActions :=
                                    SimpleAction performScanSources_func # mDeferredActions s3\<rparr>
                          else s3)
                in
                  if formatChange
                  then andThen (flushDecoder audio True None s4)
                         (\<lambda>s5. andThen (replyErr reply err s5) (\<lambda>s6. Inr (OK, s6)))
                  else if timeChange
                  then andThen (flushDecoder audio False newFormat s4)
                         (\<lambda>s5. andThen (replyErr reply OK s5) (\<lambda>s6. Inr (OK, s6)))
                  else if seamlessFormatChange
                  then andThen
                         (replyErr reply OK (updateDecoderFormatWithoutFlush audio newFormat s4))
                         (\<lambda>s6. Inr (OK, s6))
                  else Inr (- EWOULDBLOCK, s4)))))
      else andThen (replyErr reply err s) (\<lambda>s1. Inr (OK, s1)))"

text \<open>What follows the loop: the access unit goes into the reply.\<close>

definition feedDecoderInputData_deliver ::
  "bool \<Rightarrow> amessage option \<Rightarrow> abuffer option \<Rightarrow> NuPlayer \<Rightarrow> abort + status_t \<times> NuPlayer"
  where
  "feedDecoderInputData_deliver audio reply accessUnit s =
     andThen
       (if \<not> audio
        then (case mCCDecoder s of
                None \<Rightarrow> Inl NULL_dereference
              | Some cc \<Rightarrow> Inr (emit (CCDecoder_decode accessUnit) s))
        else Inr s)
       (\<lambda>s1. andThen (postReply (map_option (setBuffer ''buffer'' accessUnit) reply) s1)
                (\<lambda>s2. Inr (OK, s2)))"

text \<open>
  The loop \<^verbatim>\<open>do { ... } while (dropAccessUnit)\<close>.  It ends only when the source stops
  handing out access units that are dropped; \<open>None\<close> is a run that never ends.
\<close>

partial_function (option) feedDecoderInputData_loop ::
  "platform \<Rightarrow> bool \<Rightarrow> amessage option \<Rightarrow> NuPlayer \<Rightarrow> (abort + status_t \<times> NuPlayer) option"
  where
  "feedDecoderInputData_loop P audio reply s =
     (case mSource s of
        None \<Rightarrow> Some (Inl NULL_dereference)
      | Some src0 \<Rightarrow>
          let err = fst (fst (dequeueAccessUnit src0 audio));
              accessUnit = snd (fst (dequeueAccessUnit src0 audio));
              src = snd (dequeueAccessUnit src0 audio);
              s1 = s\<lparr>mSource := Some src\<rparr>
          in
            if err = - EWOULDBLOCK then Some (Inr (err, s1))
            else if err \<noteq> OK
            then Some (feedDecoderInputData_error P audio reply err accessUnit src s1)
            else
              let s2 = (if \<not> audio then s1\<lparr>mNumFramesTotal := mNumFramesTotal s1 + 1\<rparr>
                        else s1)
              in
                if \<not> audio \<and> \<not> (mSourceFlags s2 AND FLAG_SECURE \<noteq> 0)
                     \<and> 100000 <s mVideoLateByUs s2 \<and> mVideoIsAVC s2
                then
                  (case accessUnit of
                     None \<Rightarrow> Some (Inl NULL_dereference)
                   | Some au \<Rightarrow>
                       if \<not> IsAVCReferenceFrame P au
                       then feedDecoderInputData_loop P audio reply
                              (s2\<lparr>mNumFramesDropped := mNumFramesDropped s2 + 1\<rparr>)
                       else Some (feedDecoderInputData_deliver audio reply accessUnit s2))
                else Some (feedDecoderInputData_deliver audio reply accessUnit s2))"

definition feedDecoderInputData ::
  "platform \<Rightarrow> bool \<Rightarrow> amessage \<Rightarrow> NuPlayer \<Rightarrow> (abort + status_t \<times> NuPlayer) option"
  where
  "feedDecoderInputData P audio msg s =
     (case findMessage msg ''reply'' of
        None \<Rightarrow> Some (Inl CHECK_failed)
      | Some reply \<Rightarrow>
          if (audio \<and> mFlushingAudio s \<noteq> NONE) \<or> (\<not> audio \<and> mFlushingVideo s \<noteq> NONE)
          then Some (andThen (replyErr reply INFO_DISCONTINUITY s) (\<lambda>s1. Inr (OK, s1)))
          else feedDecoderInputData_loop P audio reply s)"

subsection \<open>Rendering and the video size\<close>

definition renderBuffer :: "platform \<Rightarrow> bool \<Rightarrow> amessage \<Rightarrow> NuPlayer \<Rightarrow> abort + NuPlayer" where
  "renderBuffer P audio msg s =
     (case findMessage msg ''reply'' of
        None \<Rightarrow> Inl CHECK_failed
      | Some reply \<Rightarrow>
          if (audio \<and> mFlushingAudio s \<noteq> NONE) \<or> (\<not> audio \<and> mFlushingVideo s \<noteq> NONE)
          then postReply reply s
          else
       (case findBuffer msg ''buffer'' of
          None \<Rightarrow> Inl CHECK_failed
        | Some None \<Rightarrow> Inl NULL_dereference
        | Some (Some buffer) \<Rightarrow>
       (case findInt64 (meta buffer) ''timeUs'' of
          None \<Rightarrow> Inl CHECK_failed
        | Some mediaTimeUs \<Rightarrow>
            let skipUntilMediaTimeUs =
                  (if audio then mSkipRenderingAudioUntilMediaTimeUs s
                   else mSkipRenderingVideoUntilMediaTimeUs s)
            in
              if 0 \<le>s skipUntilMediaTimeUs \<and> mediaTimeUs <s skipUntilMediaTimeUs
              then postReply reply s
              else
                let s1 = (if 0 \<le>s skipUntilMediaTimeUs
                          then (if audio then s\<lparr>mSkipRenderingAudioUntilMediaTimeUs := - 1\<rparr>
                                else s\<lparr>mSkipRenderingVideoUntilMediaTimeUs := - 1\<rparr>)
                          else s)
                in
                  andThen
                    (if \<not> audio
                     then (case mCCDecoder s1 of
                             None \<Rightarrow> Inl NULL_dereference
                           | Some cc \<Rightarrow>
                               Inr (if isSelected P cc then emit (CCDecoder_display mediaTimeUs) s1
                                    else s1))
                     else Inr s1)
                    (\<lambda>s2. case mRenderer s2 of
                             None \<Rightarrow> Inl NULL_dereference
                           | Some r \<Rightarrow>
                               Inr (emit (Renderer_queueBuffer audio (Some buffer) reply) s2)))))"

text \<open>
  Division of \<^verbatim>\<open>int32_t\<close>.  The quotient is truncated towards zero; there is none when the
  divisor is zero, nor when the least \<^verbatim>\<open>int32_t\<close> is divided by \<open>-1\<close>, whose quotient is not an
  \<^verbatim>\<open>int32_t\<close>: in both cases the processor raises the arithmetic exception and the
  process ends.
\<close>

definition INT32_MIN :: int32_t where
  "INT32_MIN = - 2147483648"

definition sdiv32 :: "int32_t \<Rightarrow> int32_t \<Rightarrow> abort + int32_t" where
  "sdiv32 a b =
     (if b = 0 then Inl Division_by_zero
      else if a = INT32_MIN \<and> b = - 1 then Inl Division_overflow
      else Inr (word_of_int (sint a sdiv sint b)))"

definition updateVideoSize :: "amessage option \<Rightarrow> amessage option \<Rightarrow> NuPlayer \<Rightarrow> abort + NuPlayer"
  where
  "updateVideoSize inputFormat outputFormat s =
     (case inputFormat of
        None \<Rightarrow> Inr (notifyListener MEDIA_SET_VIDEO_SIZE 0 0 s)
      | Some inFmt \<Rightarrow>
          andThen
            (case outputFormat of
               Some outFmt \<Rightarrow>
                 (case findInt32 outFmt ''width'' of
                    None \<Rightarrow> Inl CHECK_failed
                  | Some width \<Rightarrow>
                 (case findInt32 outFmt ''height'' of
                    None \<Rightarrow> Inl CHECK_failed
                  | Some height \<Rightarrow>
                 (case findRect outFmt ''crop'' of
                    None \<Rightarrow> Inl CHECK_failed
                  | Some (cropLeft, cropTop, cropRight, cropBottom) \<Rightarrow>
                      Inr (cropRight - cropLeft + 1, cropBottom - cropTop + 1))))
             | None \<Rightarrow>
                 (case findInt32 inFmt ''width'' of
                    None \<Rightarrow> Inl CHECK_failed
                  | Some displayWidth \<Rightarrow>
                 (case findInt32 inFmt ''height'' of
                    None \<Rightarrow> Inl CHECK_failed
                  | Some displayHeight \<Rightarrow> Inr (displayWidth, displayHeight))))
            (\<lambda>(displayWidth0, displayHeight0).
               andThen
                 (case findInt32 inFmt ''sar-width'' of
                    None \<Rightarrow> Inr displayWidth0
                  | Some sarWidth \<Rightarrow>
                      (case findInt32 inFmt ''sar-height'' of
                         None \<Rightarrow> Inr displayWidth0
                       | Some sarHeight \<Rightarrow> sdiv32 (displayWidth0 * sarWidth) sarHeight))
                 (\<lambda>displayWidth1.
                    let rotationDegrees =
                          (case findInt32 inFmt ''rotation-degrees'' of
                             None \<Rightarrow> 0
                           | Some r \<Rightarrow> r)
                    in if rotationDegrees = 90 \<or> rotationDegrees = 270
                       then Inr (notifyListener MEDIA_SET_VIDEO_SIZE displayHeight0
                                   displayWidth1 s)
                       else Inr (notifyListener MEDIA_SET_VIDEO_SIZE displayWidth1
                                   displayHeight0 s))))"

subsection \<open>Messages from the renderer\<close>

text \<open>The case \<^verbatim>\<open>kWhatRendererNotify\<close> of \<^verbatim>\<open>onMessageReceived\<close>.\<close>

definition onRendererNotify :: "platform \<Rightarrow> amessage \<Rightarrow> NuPlayer \<Rightarrow> abort + NuPlayer" where
  "onRendererNotify P msg s =
     (case findInt32 msg ''what'' of
        None \<Rightarrow> Inl CHECK_failed
      | Some what' \<Rightarrow>
          if what' = Renderer_kWhatEOS
          then
            (case findInt32 msg ''audio'' of
               None \<Rightarrow> Inl CHECK_failed
             | Some audio \<Rightarrow>
            (case findInt32 msg ''finalResult'' of
               None \<Rightarrow> Inl CHECK_failed
             | Some finalResult \<Rightarrow>
                 let s1 = (if audio \<noteq> 0 then s\<lparr>mAudioEOS := True\<rparr> else s\<lparr>mVideoEOS := True\<rparr>);
                     s2 = (if finalResult = ERROR_END_OF_STREAM then s1
                           else notifyListener MEDIA_ERROR MEDIA_ERROR_UNKNOWN finalResult s1)
                 in if (mAudioEOS s2 \<or> mAudioDecoder s2 = None)
                        \<and> (mVideoEOS s2 \<or> mVideoDecoder s2 = None)
                    then Inr (notifyListener MEDIA_PLAYBACK_COMPLETE 0 0 s2)
                    else Inr s2))
          else if what' = Renderer_kWhatPosition
          then
            (case findInt64 msg ''positionUs'' of
               None \<Rightarrow> Inl CHECK_failed
             | Some positionUs \<Rightarrow>
            (case findInt64 msg ''videoLateByUs'' of
               None \<Rightarrow> Inl CHECK_failed
             | Some videoLateByUs \<Rightarrow>
                 let s1 = s\<lparr>mCurrentPositionUs := positionUs, mVideoLateByUs := videoLateByUs\<rparr>
                 in (case mDriver s1 of
                       wp_NULL \<Rightarrow> Inr s1
                     | wp_dead \<Rightarrow> Inr s1
                     | wp_live \<Rightarrow>
                         Inr (emit (Driver_notifyFrameStats (mNumFramesTotal s1)
                                      (mNumFramesDropped s1))
                               (emit (Driver_notifyPosition positionUs) s1)))))
          else if what' = Renderer_kWhatFlushComplete
          then
            (case findInt32 msg ''audio'' of
               None \<Rightarrow> Inl CHECK_failed
             | Some audio \<Rightarrow> Inr s)
          else if what' = Renderer_kWhatVideoRenderingStart
          then Inr (notifyListener MEDIA_INFO MEDIA_INFO_RENDERING_START 0 s)
          else if what' = Renderer_kWhatMediaRenderingStart
          then Inr (notifyListener MEDIA_STARTED 0 0 s)
          else if what' = Renderer_kWhatAudioOffloadTearDown
          then
            (case findInt64 msg ''positionUs'' of
               None \<Rightarrow> Inl CHECK_failed
             | Some positionUs \<Rightarrow>
                 andThen (closeAudioSink s)
                   (\<lambda>s1.
                      let s2 = s1\<lparr>mAudioDecoder := None\<rparr>
                      in case mRenderer s2 of
                           None \<Rightarrow> Inl NULL_dereference
                         | Some r \<Rightarrow>
                             let s3 = emit (Renderer_flush True) s2;
                                 s4 = (if mVideoDecoder s3 \<noteq> None
                                       then emit (Renderer_flush False) s3 else s3);
                                 s5 = (emit Renderer_signalDisableOffloadAudio s4)
                                        \<lparr>mOffloadAudio := False\<rparr>
                             in andThen (performSeek positionUs s5)
                                  (\<lambda>s6. andThen (instantiateDecoder P True s6)
                                           (\<lambda>(err, s7). Inr s7))))
          else Inr s)"

subsection \<open>Messages from the decoders\<close>

text \<open>
  The cases \<^verbatim>\<open>kWhatVideoNotify\<close> and \<^verbatim>\<open>kWhatAudioNotify\<close> of \<^verbatim>\<open>onMessageReceived\<close>.
  The result is \<open>None\<close> when the dequeue loop of \<open>feedDecoderInputData\<close> never ends.
\<close>

definition setFlushing :: "bool \<Rightarrow> FlushStatus \<Rightarrow> NuPlayer \<Rightarrow> NuPlayer" where
  "setFlushing audio st s = (if audio then s\<lparr>mFlushingAudio := st\<rparr> else s\<lparr>mFlushingVideo := st\<rparr>)"

definition onDecoderNotify :: "platform \<Rightarrow> amessage \<Rightarrow> NuPlayer \<Rightarrow> (abort + NuPlayer) option" where
  "onDecoderNotify P msg s =
     (let audio = (what msg = kWhatAudioNotify);
          currentDecoderGeneration =
            (if audio then mAudioDecoderGeneration s else mVideoDecoderGeneration s)
      in
     (case findInt32 msg ''generation'' of
        None \<Rightarrow> Some (Inl CHECK_failed)
      | Some requesterGeneration \<Rightarrow>
          if requesterGeneration \<noteq> currentDecoderGeneration
          then
            (case findMessage msg ''reply'' of
               None \<Rightarrow> Some (Inr s)
             | Some reply \<Rightarrow> Some (replyErr reply INFO_DISCONTINUITY s))
          else
     (case findInt32 msg ''what'' of
        None \<Rightarrow> Some (Inl CHECK_failed)
      | Some what' \<Rightarrow>
          if what' = Decoder_kWhatFillThisBuffer
          then
            (case feedDecoderInputData P audio msg s of
               None \<Rightarrow> None
             | Some (Inl e) \<Rightarrow> Some (Inl e)
             | Some (Inr (err, s1)) \<Rightarrow>
                 if err = - EWOULDBLOCK
                 then (case mSource s1 of
                         None \<Rightarrow> Some (Inl NULL_dereference)
                       | Some src \<Rightarrow>
                           if src_feedMoreTSData src = OK
                           then Some (Inr (emit (AMessage_post msg 10000) s1))
                           else Some (Inr s1))
                 else Some (Inr s1))
          else if what' = Decoder_kWhatEOS
          then
            (case findInt32 msg ''err'' of
               None \<Rightarrow> Some (Inl CHECK_failed)
             | Some err \<Rightarrow>
                 (case mRenderer s of
                    None \<Rightarrow> Some (Inl NULL_dereference)
                  | Some r \<Rightarrow> Some (Inr (emit (Renderer_queueEOS audio err) s))))
          else if what' = Decoder_kWhatFlushCompleted
          then
            (case IsFlushingState (if audio then mFlushingAudio s else mFlushingVideo s) of
               (True, Some needShutdown) \<Rightarrow>
                 let s1 = (if audio then s\<lparr>mFlushingAudio := FLUSHED\<rparr>
                           else s\<lparr>mFlushingVideo := FLUSHED, mVideoLateByUs := 0\<rparr>)
                 in Some
                      (andThen
                         (if needShutdown
                          then (case getDecoder audio s1 of
                                  None \<Rightarrow> Inl NULL_dereference
                                | Some d \<Rightarrow>
                                    Inr (setFlushing audio SHUTTING_DOWN_DECODER
                                           (emit (Decoder_initiateShutdown d) s1)))
                          else Inr s1)
                         (finishFlushIfPossible P))
             | _ \<Rightarrow> Some (Inl CHECK_failed))
          else if what' = Decoder_kWhatOutputFormatChanged
          then
            (case findMessage msg ''format'' of
               None \<Rightarrow> Some (Inl CHECK_failed)
             | Some format0 \<Rightarrow>
                 if audio then Some (openAudioSink P format0 False s)
                 else (case mSource s of
                         None \<Rightarrow> Some (Inl NULL_dereference)
                       | Some src \<Rightarrow> Some (updateVideoSize (getFormat src False) format0 s)))
          else if what' = Decoder_kWhatShutdownCompleted
          then
            (if (if audio then mFlushingAudio s else mFlushingVideo s) \<noteq> SHUTTING_DOWN_DECODER
             then Some (Inl CHECK_failed)
             else Some (finishFlushIfPossible P
                          (setFlushing audio SHUT_DOWN (setDecoder audio None s))))
          else if what' = Decoder_kWhatError
          then
            (let err = (case findInt32 msg ''err'' of None \<Rightarrow> UNKNOWN_ERROR | Some e \<Rightarrow> e)
             in case mRenderer s of
                  None \<Rightarrow> Some (Inl NULL_dereference)
                | Some r \<Rightarrow>
                    let s1 = emit (Renderer_queueEOS audio err) s;
                        s2 = (if audio \<and> mFlushingAudio s1 \<noteq> NONE
                              then s1\<lparr>mAudioDecoder := None, mFlushingAudio := SHUT_DOWN\<rparr>
                              else if \<not> audio \<and> mFlushingVideo s1 \<noteq> NONE
                              then s1\<lparr>mVideoDecoder := None, mFlushingVideo := SHUT_DOWN\<rparr>
                              else s1)
                    in Some (finishFlushIfPossible P s2))
          else if what' = Decoder_kWhatDrainThisBuffer
          then Some (renderBuffer P audio msg s)
          else Some (Inr s))))"

text \<open>A flush status that is neither \<open>NONE\<close> nor \<open>FLUSHED\<close> nor \<open>SHUT_DOWN\<close>.\<close>

definition transitional :: "FlushStatus \<Rightarrow> bool" where
  "transitional st = (st \<noteq> NONE \<and> st \<noteq> FLUSHED \<and> st \<noteq> SHUT_DOWN)"

text \<open>
  The executions of the loop of \<open>processDeferredActions\<close>: for every action that is
  popped and executed, the state in which that happens, oldest first.
\<close>

function deferredExecutions :: "platform \<Rightarrow> NuPlayer \<Rightarrow> (NuPlayer \<times> Action) list" where
  "deferredExecutions P s =
     (case mDeferredActions s of
        [] \<Rightarrow> []
      | action # rest \<Rightarrow>
          if mFlushingAudio s \<noteq> NONE \<or> mFlushingVideo s \<noteq> NONE then []
          else
            (s, action) #
            (case execute P action (s\<lparr>mDeferredActions := rest\<rparr>) of
               Inl e \<Rightarrow> []
             | Inr s' \<Rightarrow> deferredExecutions P s'))"
  by pat_completeness auto
termination
  by (relation "measure (\<lambda>(P, s). length (mDeferredActions s))")
    (auto dest!: execute_mDeferredActions)

declare deferredExecutions.simps [simp del]

text \<open>A call that posts the reply \<open>r\<close> with an \<open>err\<close> or a \<open>buffer\<close> item written into it.\<close>

definition replies :: "amessage \<Rightarrow> call \<Rightarrow> bool" where
  "replies r c =
     (case c of
        AMessage_post m delay \<Rightarrow>
          delay = 0 \<and> what m = what r \<and> target m = target r
          \<and> (findInt32 m ''err'' \<noteq> None \<or> findBuffer m ''buffer'' \<noteq> None)
      | _ \<Rightarrow> False)"

text \<open>
  What a call of \<open>feedDecoderInputData\<close> that returns has done, by the status it
  returns: nothing but would-block or \<open>OK\<close> is returned; with would-block no call has
  been made; with \<open>OK\<close> the last call made posts the reply.
\<close>

definition fed :: "amessage option \<Rightarrow> call list \<Rightarrow> abort + status_t \<times> NuPlayer \<Rightarrow> bool" where
  "fed reply before res =
     (case res of
        Inl e \<Rightarrow> True
      | Inr (rv, s') \<Rightarrow>
          if rv = - EWOULDBLOCK then calls s' = before
          else rv = OK \<and> prefix before (calls s') \<and> calls s' \<noteq> before
               \<and> (case reply of None \<Rightarrow> False | Some r \<Rightarrow> replies r (last (calls s'))))"

subsection \<open>Values for the examples\<close>

definition example_platform :: platform where
  "example_platform =
     \<lparr>IsAVCReferenceFrame = (\<lambda>au. bytes au = [1]),
      mapMimeToAudioFormat =
        (\<lambda>m. if m = ''audio/mp4a-latm'' then Some AUDIO_FORMAT_AAC else None),
      mapAACProfileToAudioFormat = (\<lambda>f p. f),
      supportsSeamlessFormatChange = (\<lambda>d f. False),
      getInputBuffers = (\<lambda>d. (OK, [])),
      isSelected = (\<lambda>cc. False),
      set_scaling_mode = (\<lambda>w m. OK),
      offloadInfo_padding = (\<lambda>s. replicate 6 0)\<rparr>"

definition example_decoder :: "bool \<Rightarrow> Decoder" where
  "example_decoder audio =
     Decoder (AMessage (if audio then kWhatAudioNotify else kWhatVideoNotify) 1
                [(''generation'', Int32 1)]) None"

definition example_audio_format :: amessage where
  "example_audio_format =
     AMessage 0 0
       [(''mime'', AString ''audio/mp4a-latm''), (''channel-count'', Int32 2),
        (''sample-rate'', Int32 44100)]"

definition example_source :: Source where
  "example_source =
     \<lparr>src_getFormat_audio = Some example_audio_format,
      src_getFormat_video = None,
      src_getDuration = (OK, 60000000),
      src_feedMoreTSData = OK,
      src_setBuffers = OK,
      src_accessUnits_audio = sconst (- EWOULDBLOCK, None),
      src_accessUnits_video = sconst (- EWOULDBLOCK, None)\<rparr>"

text \<open>A player that is playing both streams: source, renderer and two decoders.\<close>

definition example_playing :: NuPlayer where
  "example_playing =
     (NuPlayer_new 1)
       \<lparr>mDriver := wp_live, mSource := Some example_source,
        mAudioDecoder := Some (example_decoder True),
        mVideoDecoder := Some (example_decoder False),
        mCCDecoder := Some (CCDecoder (AMessage kWhatClosedCaptionNotify 1 [])),
        mRenderer := Some (Renderer 2), mRendererLooper := Some ALooper,
        mAudioDecoderGeneration := 1, mVideoDecoderGeneration := 1, mStarted := True\<rparr>"

definition example_reset_queue :: NuPlayer where
  "example_reset_queue =
     example_playing
       \<lparr>mDeferredActions := [ShutdownDecoderAction True True, SimpleAction performReset_func]\<rparr>"

definition example_stale_request :: amessage where
  "example_stale_request =
     AMessage kWhatAudioNotify 1
       [(''generation'', Int32 0), (''what'', Int32 Decoder_kWhatFillThisBuffer),
        (''reply'', Message (Some (AMessage 7 9 [])))]"

definition example_stale_event :: amessage where
  "example_stale_event =
     AMessage kWhatVideoNotify 1
       [(''generation'', Int32 0), (''what'', Int32 Decoder_kWhatFlushCompleted)]"

definition example_sink :: AudioSink where
  "example_sink = \<lparr>sink_open_status = (\<lambda>args. OK), sink_start_status = OK\<rparr>"

text \<open>A player whose decoders have been shut down, about to be reset.\<close>

definition example_before_reset :: NuPlayer where
  "example_before_reset =
     example_playing
       \<lparr>mAudioDecoder := None, mVideoDecoder := None, mAudioSink := Some example_sink,
        mNativeWindow := Some (NativeWindowWrapper 3)\<rparr>"

definition example_after_reset :: NuPlayer where
  "example_after_reset =
     example_before_reset
       \<lparr>mSource := None, mRenderer := None, mRendererLooper := None,
        mScanSourcesGeneration := 1, mPollDurationGeneration := 1, mStarted := False,
        calls := [ALooper_unregisterHandler 2, ALooper_stop, Source_stop,
                  Driver_notifyResetComplete]\<rparr>"

definition example_EOS :: "int32_t \<Rightarrow> status_t \<Rightarrow> amessage" where
  "example_EOS audio finalResult =
     AMessage 0 1
       [(''what'', Int32 Renderer_kWhatEOS), (''audio'', Int32 audio),
        (''finalResult'', Int32 finalResult)]"

definition example_teardown :: amessage where
  "example_teardown =
     AMessage 0 1
       [(''what'', Int32 Renderer_kWhatAudioOffloadTearDown), (''positionUs'', Int64 12345000)]"

text \<open>A player that offloads audio through a pass-through decoder.\<close>

definition example_offloading :: NuPlayer where
  "example_offloading =
     example_playing
       \<lparr>mAudioSink := Some example_sink, mOffloadAudio := True,
        mAudioDecoder :=
          Some (DecoderPassThrough (AMessage kWhatAudioNotify 1 [(''generation'', Int32 1)]))\<rparr>"

text \<open>The same player when the source does not know the audio format at the moment.\<close>

definition example_offloading_no_format :: NuPlayer where
  "example_offloading_no_format =
     example_offloading\<lparr>mSource := Some (example_source\<lparr>src_getFormat_audio := None\<rparr>)\<rparr>"

text \<open>
  The offload parameters of the example format, in a struct whose padding holds the
  given bytes, and the calls by which \<^verbatim>\<open>openAudioSink\<close> opens the sink with them.
\<close>

definition example_offload_info :: "8 word list \<Rightarrow> audio_offload_info_t" where
  "example_offload_info p =
     AUDIO_INFO_INITIALIZER
       \<lparr>sample_rate := 44100, channel_mask := 0, format := AUDIO_FORMAT_AAC,
        stream_type := AUDIO_STREAM_MUSIC, bit_rate := - 1, duration_us := - 1,
        has_video := True, is_streaming := True, padding := p\<rparr>"

definition example_offload_calls :: "8 word list \<Rightarrow> call list" where
  "example_offload_calls p =
     [AudioSink_close,
      AudioSink_open
        \<lparr>so_sampleRate = 44100, so_channelCount = 2, so_channelMask = 0,
         so_format = AUDIO_FORMAT_AAC, so_bufferCount = 8, so_callback = True,
         so_flags = AUDIO_OUTPUT_FLAG_COMPRESS_OFFLOAD,
         so_offloadInfo = Some (example_offload_info p)\<rparr>,
      sendMetaDataToHal, AudioSink_start, Renderer_signalAudioSinkChanged]"

text \<open>The player after it has opened the sink for offload, the padding being zero.\<close>

definition example_offloaded :: NuPlayer where
  "example_offloaded =
     example_offloading
       \<lparr>mCurrentOffloadInfo := example_offload_info (replicate 6 0),
        calls := example_offload_calls (replicate 6 0)\<rparr>"

text \<open>
  The same player when the struct it stored has other bytes in its padding, and a
  platform on which the first call of \<^verbatim>\<open>openAudioSink\<close> finds such bytes in the padding of
  its local struct.
\<close>

definition example_offloaded_other_padding :: NuPlayer where
  "example_offloaded_other_padding =
     example_offloading
       \<lparr>mCurrentOffloadInfo := example_offload_info (replicate 6 255),
        calls := example_offload_calls (replicate 6 255)\<rparr>"

definition example_platform_other_padding :: platform where
  "example_platform_other_padding =
     example_platform
       \<lparr>offloadInfo_padding := (\<lambda>s. if calls s = [] then replicate 6 255 else replicate 6 0)\<rparr>"

definition example_reply :: amessage where
  "example_reply = AMessage 7 9 []"

definition example_fill_request :: "bool \<Rightarrow> amessage" where
  "example_fill_request audio =
     AMessage (if audio then kWhatAudioNotify else kWhatVideoNotify) 1
       [(''generation'', Int32 1), (''what'', Int32 Decoder_kWhatFillThisBuffer),
        (''reply'', Message (Some example_reply))]"

text \<open>A player whose source has run out of audio.\<close>

definition example_audio_ended :: NuPlayer where
  "example_audio_ended =
     example_playing
       \<lparr>mSource :=
          Some (example_source
                  \<lparr>src_accessUnits_audio :=
                     (ERROR_END_OF_STREAM, None) ## sconst (- EWOULDBLOCK, None)\<rparr>)\<rparr>"

definition example_late_frame :: abuffer where
  "example_late_frame = ABuffer [0] (AMessage 0 0 [])"

definition example_reference_frame :: abuffer where
  "example_reference_frame = ABuffer [1] (AMessage 0 0 [])"

text \<open>
  A player whose AVC video is 150 ms late; the source holds a frame that is not a
  reference frame and then a reference frame.
\<close>

definition example_late :: NuPlayer where
  "example_late =
     example_playing
       \<lparr>mVideoIsAVC := True, mVideoLateByUs := 150000,
        mSource :=
          Some (example_source
                  \<lparr>src_accessUnits_video :=
                     (OK, Some example_late_frame) ## (OK, Some example_reference_frame)
                       ## sconst (- EWOULDBLOCK, None)\<rparr>)\<rparr>"

section \<open>Properties\<close>

subsection \<open>Flush and shutdown requests without a decoder\<close>

text \<open>
  C10.  If \<open>performDecoderShutdown audio video\<close> is called when no requested stream has a
  decoder, it returns at once and the whole state is as before: no call is made,
  \<open>mTimeDiscontinuityPending\<close> is not set and both flush statuses stay.  The same holds
  for \<open>performDecoderFlush\<close> when both decoders are absent.
\<close>

theorem performDecoder_absent:
  "((\<not> audio \<or> mAudioDecoder s = None) \<and> (\<not> video \<or> mVideoDecoder s = None)
      \<longrightarrow> performDecoderShutdown audio video s = Inr s)
   \<and> (mAudioDecoder s = None \<and> mVideoDecoder s = None \<longrightarrow> performDecoderFlush s = Inr s)"
  by (simp add: performDecoderShutdown_def performDecoderFlush_def)

theorem performDecoder_absent_witness:
  "performDecoderShutdown False True
       ((NuPlayer_new 1)\<lparr>mAudioDecoder := Some (example_decoder True), mFlushingVideo := FLUSHED\<rparr>)
     = Inr ((NuPlayer_new 1)\<lparr>mAudioDecoder := Some (example_decoder True),
                              mFlushingVideo := FLUSHED\<rparr>)
   \<and> performDecoderFlush (NuPlayer_new 1) = Inr (NuPlayer_new 1)"
  using performDecoder_absent [of False
      "(NuPlayer_new 1)\<lparr>mAudioDecoder := Some (example_decoder True), mFlushingVideo := FLUSHED\<rparr>"
      True]
    performDecoder_absent [of True "NuPlayer_new 1" True]
  by (simp add: NuPlayer_new_def)

subsection \<open>Finishing a flush\<close>

text \<open>
  C1.  Whenever \<open>finishFlushIfPossible\<close> is called: if the flush status of either stream
  is transitional (not \<open>NONE\<close>, not \<open>FLUSHED\<close>, not \<open>SHUT_DOWN\<close>) it returns and nothing
  has changed.  Otherwise it signals a time discontinuity to the renderer exactly when
  \<open>mTimeDiscontinuityPending\<close> was set, and clears the flag; it signals resume to each
  stream that is \<open>FLUSHED\<close> and still has a decoder; it sets both flush statuses to
  \<open>NONE\<close>; and then it runs the deferred actions.  (With the flag set and no renderer
  the call goes through a NULL pointer.)
\<close>

theorem finishFlushIfPossible_steps:
  "(transitional (mFlushingAudio s) \<or> transitional (mFlushingVideo s)
      \<longrightarrow> finishFlushIfPossible P s = Inr s)
   \<and> (\<not> transitional (mFlushingAudio s) \<and> \<not> transitional (mFlushingVideo s)
        \<and> mTimeDiscontinuityPending s \<and> mRenderer s = None
      \<longrightarrow> finishFlushIfPossible P s = Inl NULL_dereference)
   \<and> (\<not> transitional (mFlushingAudio s) \<and> \<not> transitional (mFlushingVideo s)
        \<and> (mTimeDiscontinuityPending s \<longrightarrow> mRenderer s \<noteq> None)
      \<longrightarrow> finishFlushIfPossible P s =
            processDeferredActions P
              (s\<lparr>mTimeDiscontinuityPending := False,
                 mFlushingAudio := NONE,
                 mFlushingVideo := NONE,
                 calls := calls s
                   @ (if mTimeDiscontinuityPending s then [Renderer_signalTimeDiscontinuity]
                      else [])
                   @ (case mAudioDecoder s of
                        None \<Rightarrow> []
                      | Some d \<Rightarrow>
                          if mFlushingAudio s = FLUSHED then [Decoder_signalResume d] else [])
                   @ (case mVideoDecoder s of
                        None \<Rightarrow> []
                      | Some d \<Rightarrow>
                          if mFlushingVideo s = FLUSHED then [Decoder_signalResume d]
                          else [])\<rparr>))"
proof (intro conjI impI)
  assume "transitional (mFlushingAudio s) \<or> transitional (mFlushingVideo s)"
  then show "finishFlushIfPossible P s = Inr s"
    by (auto simp: finishFlushIfPossible_def transitional_def)
next
  assume "\<not> transitional (mFlushingAudio s) \<and> \<not> transitional (mFlushingVideo s)
        \<and> mTimeDiscontinuityPending s \<and> mRenderer s = None"
  then show "finishFlushIfPossible P s = Inl NULL_dereference"
    by (auto simp: finishFlushIfPossible_def transitional_def andThen_def)
next
  assume a: "\<not> transitional (mFlushingAudio s) \<and> \<not> transitional (mFlushingVideo s)
        \<and> (mTimeDiscontinuityPending s \<longrightarrow> mRenderer s \<noteq> None)"
  then have na: "(mFlushingAudio s \<noteq> NONE \<and> mFlushingAudio s \<noteq> FLUSHED
                    \<and> mFlushingAudio s \<noteq> SHUT_DOWN) = False"
    and nv: "(mFlushingVideo s \<noteq> NONE \<and> mFlushingVideo s \<noteq> FLUSHED
                    \<and> mFlushingVideo s \<noteq> SHUT_DOWN) = False"
    by (auto simp: transitional_def)
  show "finishFlushIfPossible P s =
            processDeferredActions P
              (s\<lparr>mTimeDiscontinuityPending := False,
                 mFlushingAudio := NONE,
                 mFlushingVideo := NONE,
                 calls := calls s
                   @ (if mTimeDiscontinuityPending s then [Renderer_signalTimeDiscontinuity]
                      else [])
                   @ (case mAudioDecoder s of
                        None \<Rightarrow> []
                      | Some d \<Rightarrow>
                          if mFlushingAudio s = FLUSHED then [Decoder_signalResume d] else [])
                   @ (case mVideoDecoder s of
                        None \<Rightarrow> []
                      | Some d \<Rightarrow>
                          if mFlushingVideo s = FLUSHED then [Decoder_signalResume d]
                          else [])\<rparr>)"
  proof (cases "mTimeDiscontinuityPending s")
    case True
    with a obtain r where r: "mRenderer s = Some r" by auto
    from True r show ?thesis
      unfolding finishFlushIfPossible_def na nv
      by (cases "mAudioDecoder s"; cases "mVideoDecoder s")
        (auto simp: andThen_def emit_def Let_def
          intro!: arg_cong [where f = "processDeferredActions P"] NuPlayer.equality)
  next
    case False
    from False show ?thesis
      unfolding finishFlushIfPossible_def na nv
      by (cases "mAudioDecoder s"; cases "mVideoDecoder s")
        (auto simp: andThen_def emit_def Let_def
          intro!: arg_cong [where f = "processDeferredActions P"] NuPlayer.equality)
  qed
qed

theorem finishFlushIfPossible_steps_witness:
  "finishFlushIfPossible example_platform
       (example_playing\<lparr>mFlushingAudio := FLUSHING_DECODER, mFlushingVideo := FLUSHED\<rparr>)
     = Inr (example_playing\<lparr>mFlushingAudio := FLUSHING_DECODER, mFlushingVideo := FLUSHED\<rparr>)
   \<and> finishFlushIfPossible example_platform
       (example_playing\<lparr>mFlushingAudio := FLUSHED, mFlushingVideo := FLUSHED,
                         mTimeDiscontinuityPending := True, mRenderer := None\<rparr>)
     = Inl NULL_dereference
   \<and> finishFlushIfPossible example_platform
       (example_playing\<lparr>mFlushingAudio := FLUSHED, mFlushingVideo := FLUSHED,
                         mTimeDiscontinuityPending := True,
                         mDeferredActions := [SeekAction 5000000]\<rparr>)
     = Inr (example_playing
              \<lparr>mTimedTextGeneration := 1,
               calls := [Renderer_signalTimeDiscontinuity,
                         Decoder_signalResume (example_decoder True),
                         Decoder_signalResume (example_decoder False),
                         Source_seekTo 5000000,
                         Driver_notifyPosition 5000000,
                         Driver_notifySeekComplete]\<rparr>)"
  using
    finishFlushIfPossible_steps [of
      "example_playing\<lparr>mFlushingAudio := FLUSHING_DECODER, mFlushingVideo := FLUSHED\<rparr>"
      example_platform]
    finishFlushIfPossible_steps [of
      "example_playing\<lparr>mFlushingAudio := FLUSHED, mFlushingVideo := FLUSHED,
                         mTimeDiscontinuityPending := True, mRenderer := None\<rparr>"
      example_platform]
    finishFlushIfPossible_steps [of
      "example_playing\<lparr>mFlushingAudio := FLUSHED, mFlushingVideo := FLUSHED,
                         mTimeDiscontinuityPending := True,
                         mDeferredActions := [SeekAction 5000000]\<rparr>"
      example_platform]
  by (simp add: transitional_def example_playing_def NuPlayer_new_def
      processDeferredActions.simps performSeek_def emit_def)

subsection \<open>The deferred actions\<close>

lemma deferredExecutions_NONE:
  "(t, a) \<in> set (deferredExecutions P s) \<Longrightarrow>
     mFlushingAudio t = NONE \<and> mFlushingVideo t = NONE"
proof (induction P s rule: deferredExecutions.induct)
  case (1 P s)
  show ?case
  proof (cases "mDeferredActions s")
    case Nil
    with "1.prems" show ?thesis by (subst (asm) deferredExecutions.simps) simp
  next
    case (Cons action rest)
    show ?thesis
    proof (cases "mFlushingAudio s \<noteq> NONE \<or> mFlushingVideo s \<noteq> NONE")
      case True
      with Cons "1.prems" show ?thesis by (subst (asm) deferredExecutions.simps) simp
    next
      case False
      show ?thesis
      proof (cases "execute P action (s\<lparr>mDeferredActions := rest\<rparr>)")
        case (Inl e)
        with Cons False "1.prems" show ?thesis
          by (subst (asm) deferredExecutions.simps) simp
      next
        case (Inr s')
        from Cons False Inr "1.prems"
        have "(t, a) = (s, action) \<or> (t, a) \<in> set (deferredExecutions P s')"
          by (subst (asm) deferredExecutions.simps) simp
        with "1.IH" [OF Cons False Inr] False show ?thesis by auto
      qed
    qed
  qed
qed

lemma deferredExecutions_prefix:
  "prefix (map snd (deferredExecutions P s)) (mDeferredActions s)"
proof (induction P s rule: deferredExecutions.induct)
  case (1 P s)
  show ?case
  proof (cases "mDeferredActions s")
    case Nil
    then show ?thesis by (subst deferredExecutions.simps) simp
  next
    case (Cons action rest)
    show ?thesis
    proof (cases "mFlushingAudio s \<noteq> NONE \<or> mFlushingVideo s \<noteq> NONE")
      case True
      with Cons show ?thesis by (subst deferredExecutions.simps) simp
    next
      case False
      show ?thesis
      proof (cases "execute P action (s\<lparr>mDeferredActions := rest\<rparr>)")
        case (Inl e)
        with Cons False show ?thesis by (subst deferredExecutions.simps) simp
      next
        case (Inr s')
        from execute_mDeferredActions [OF Inr] have "mDeferredActions s' = rest" by simp
        with "1.IH" [OF Cons False Inr] Cons False Inr show ?thesis
          by (subst deferredExecutions.simps) simp
      qed
    qed
  qed
qed

lemma processDeferredActions_rest:
  "processDeferredActions P s = Inr s' \<Longrightarrow>
     mDeferredActions s = map snd (deferredExecutions P s) @ mDeferredActions s'
     \<and> (mDeferredActions s' = [] \<or> mFlushingAudio s' \<noteq> NONE \<or> mFlushingVideo s' \<noteq> NONE)"
proof (induction P s rule: processDeferredActions.induct)
  case (1 P s)
  show ?case
  proof (cases "mDeferredActions s")
    case Nil
    with "1.prems" show ?thesis
      by (subst deferredExecutions.simps, subst (asm) processDeferredActions.simps) auto
  next
    case (Cons action rest)
    show ?thesis
    proof (cases "mFlushingAudio s \<noteq> NONE \<or> mFlushingVideo s \<noteq> NONE")
      case True
      with Cons "1.prems" show ?thesis
        by (subst deferredExecutions.simps, subst (asm) processDeferredActions.simps) auto
    next
      case False
      from "1.prems" Cons False obtain s1 where
        ex: "execute P action (s\<lparr>mDeferredActions := rest\<rparr>) = Inr s1" and
        run: "processDeferredActions P s1 = Inr s'"
        by (subst (asm) processDeferredActions.simps) (auto split: sum.splits)
      from execute_mDeferredActions [OF ex] have "mDeferredActions s1 = rest" by simp
      with "1.IH" [OF Cons False ex run] Cons False ex show ?thesis
        by (subst deferredExecutions.simps) simp
    qed
  qed
qed

text \<open>
  C3.  \<open>processDeferredActions\<close> pops and executes the deferred actions from the front,
  in order, only while both flush statuses are exactly \<open>NONE\<close>; if either stream is in
  the middle of a flush it stops without executing.  So at the instant any deferred
  action executes, both flush statuses are among \<open>NONE\<close>, \<open>FLUSHED\<close>, \<open>SHUT_DOWN\<close>.
  What is left in the queue afterwards is the part that was not executed.
\<close>

theorem processDeferredActions_gate:
  "(\<forall>(t, a) \<in> set (deferredExecutions P s).
       mFlushingAudio t = NONE \<and> mFlushingVideo t = NONE
       \<and> \<not> transitional (mFlushingAudio t) \<and> \<not> transitional (mFlushingVideo t))
   \<and> prefix (map snd (deferredExecutions P s)) (mDeferredActions s)
   \<and> (mFlushingAudio s \<noteq> NONE \<or> mFlushingVideo s \<noteq> NONE
        \<longrightarrow> processDeferredActions P s = Inr s \<and> deferredExecutions P s = [])
   \<and> (\<forall>action rest.
         mDeferredActions s = action # rest \<and> mFlushingAudio s = NONE \<and> mFlushingVideo s = NONE
         \<longrightarrow> processDeferredActions P s
               = andThen (execute P action (s\<lparr>mDeferredActions := rest\<rparr>))
                   (processDeferredActions P)
             \<and> hd (deferredExecutions P s) = (s, action))
   \<and> (\<forall>s'. processDeferredActions P s = Inr s'
         \<longrightarrow> mDeferredActions s = map snd (deferredExecutions P s) @ mDeferredActions s'
             \<and> (mDeferredActions s' = [] \<or> mFlushingAudio s' \<noteq> NONE
                 \<or> mFlushingVideo s' \<noteq> NONE))"
proof (intro conjI)
  show "\<forall>(t, a) \<in> set (deferredExecutions P s).
       mFlushingAudio t = NONE \<and> mFlushingVideo t = NONE
       \<and> \<not> transitional (mFlushingAudio t) \<and> \<not> transitional (mFlushingVideo t)"
    using deferredExecutions_NONE [of _ _ P s] by (auto simp: transitional_def)
  show "prefix (map snd (deferredExecutions P s)) (mDeferredActions s)"
    by (rule deferredExecutions_prefix)
  show "mFlushingAudio s \<noteq> NONE \<or> mFlushingVideo s \<noteq> NONE
        \<longrightarrow> processDeferredActions P s = Inr s \<and> deferredExecutions P s = []"
    by (subst processDeferredActions.simps, subst deferredExecutions.simps)
      (auto split: list.splits)
  show "\<forall>action rest.
         mDeferredActions s = action # rest \<and> mFlushingAudio s = NONE \<and> mFlushingVideo s = NONE
         \<longrightarrow> processDeferredActions P s
               = andThen (execute P action (s\<lparr>mDeferredActions := rest\<rparr>))
                   (processDeferredActions P)
             \<and> hd (deferredExecutions P s) = (s, action)"
    by (subst processDeferredActions.simps, subst deferredExecutions.simps)
      (auto simp: andThen_def split: sum.splits)
  show "\<forall>s'. processDeferredActions P s = Inr s'
         \<longrightarrow> mDeferredActions s = map snd (deferredExecutions P s) @ mDeferredActions s'
             \<and> (mDeferredActions s' = [] \<or> mFlushingAudio s' \<noteq> NONE
                 \<or> mFlushingVideo s' \<noteq> NONE)"
    using processDeferredActions_rest [of P s] by blast
qed

theorem processDeferredActions_gate_witness:
  "deferredExecutions example_platform example_reset_queue
     = [(example_reset_queue, ShutdownDecoderAction True True)]
   \<and> mFlushingAudio example_reset_queue = NONE \<and> mFlushingVideo example_reset_queue = NONE
   \<and> processDeferredActions example_platform example_reset_queue
     = Inr (example_playing
              \<lparr>mDeferredActions := [SimpleAction performReset_func],
               mScanSourcesGeneration := 2,
               mTimeDiscontinuityPending := True,
               mFlushingAudio := FLUSHING_DECODER_SHUTDOWN,
               mFlushingVideo := FLUSHING_DECODER_SHUTDOWN,
               calls := [Decoder_signalFlush (example_decoder True) None, Renderer_flush True,
                         Decoder_signalFlush (example_decoder False) None,
                         Renderer_flush False]\<rparr>)
   \<and> processDeferredActions example_platform
       (example_reset_queue\<lparr>mFlushingVideo := SHUTTING_DOWN_DECODER\<rparr>)
     = Inr (example_reset_queue\<lparr>mFlushingVideo := SHUTTING_DOWN_DECODER\<rparr>)"
  using processDeferredActions_gate [of example_platform example_reset_queue]
    processDeferredActions_gate [of example_platform
      "example_reset_queue\<lparr>mFlushingVideo := SHUTTING_DOWN_DECODER\<rparr>"]
  by (simp add: example_reset_queue_def example_playing_def NuPlayer_new_def
      processDeferredActions.simps deferredExecutions.simps performDecoderShutdown_def
      flushDecoder_def getDecoder_def andThen_def emit_def)

subsection \<open>Notifications of a decoder that is gone\<close>

text \<open>
  C2.  For a decoder notification whose \<open>generation\<close> differs from the current
  generation of its stream, no member of the coordinator changes.  If the message
  carries a reply, the reply is posted with \<open>err = INFO_DISCONTINUITY\<close>; otherwise the
  message is dropped and no call is made at all.
\<close>

theorem stale_decoder_notification:
  "findInt32 msg ''generation'' = Some g
     \<and> g \<noteq> (if what msg = kWhatAudioNotify then mAudioDecoderGeneration s
              else mVideoDecoderGeneration s)
   \<longrightarrow> (findMessage msg ''reply'' = None \<longrightarrow> onDecoderNotify P msg s = Some (Inr s))
       \<and> (\<forall>reply. findMessage msg ''reply'' = Some (Some reply)
            \<longrightarrow> onDecoderNotify P msg s
                  = Some (Inr (s\<lparr>calls := calls s
                                   @ [AMessage_post
                                        (setInt32 ''err'' INFO_DISCONTINUITY reply) 0]\<rparr>)))"
  by (auto simp: onDecoderNotify_def replyErr_def postReply_def emit_def Let_def)

theorem stale_decoder_notification_witness:
  "onDecoderNotify example_platform example_stale_request example_playing
     = Some (Inr (example_playing
                    \<lparr>calls := [AMessage_post (AMessage 7 9 [(''err'', Int32 INFO_DISCONTINUITY)])
                                0]\<rparr>))
   \<and> onDecoderNotify example_platform example_stale_event
         (example_playing\<lparr>mFlushingVideo := FLUSHING_DECODER\<rparr>)
     = Some (Inr (example_playing\<lparr>mFlushingVideo := FLUSHING_DECODER\<rparr>))"
  using stale_decoder_notification [of example_stale_request 0 example_playing example_platform]
    stale_decoder_notification [of example_stale_event 0
      "example_playing\<lparr>mFlushingVideo := FLUSHING_DECODER\<rparr>" example_platform]
  by (simp add: example_stale_request_def example_stale_event_def example_playing_def
      NuPlayer_new_def findInt32_def findMessage_def setInt32_def setItem_def
      kWhatAudioNotify_def kWhatVideoNotify_def)

subsection \<open>Reset\<close>

text \<open>
  The claim C4 says that after \<open>performReset\<close> all collaborator handles are absent.  The
  audio sink, the native window, the closed-caption decoder and the driver are
  collaborators too, and \<open>performReset\<close> leaves them as they are: here is a reset after
  which all four are still there.
\<close>

theorem performReset_keeps_handles:
  "mAudioDecoder example_before_reset = None
   \<and> mVideoDecoder example_before_reset = None
   \<and> performReset example_before_reset = Inr example_after_reset
   \<and> mAudioSink example_after_reset = Some example_sink
   \<and> mNativeWindow example_after_reset = Some (NativeWindowWrapper 3)
   \<and> mCCDecoder example_after_reset
       = Some (CCDecoder (AMessage kWhatClosedCaptionNotify 1 []))
   \<and> mDriver example_after_reset = wp_live"
  by (simp add: example_after_reset_def example_before_reset_def example_playing_def
      NuPlayer_new_def performReset_def cancelPollDuration_def emit_def)

text \<open>
  C4, amended.  \<open>performReset\<close> requires both decoders to be absent (the \<^verbatim>\<open>CHECK\<close>s).
  After it the source, the renderer and the renderer's looper are absent, both
  decoders are still absent and \<open>mStarted\<close> is false; duration polling is cancelled (its
  generation is bumped), the scan generation is bumped and the pending scan cleared;
  the looper, if there is one, unregisters the renderer and is stopped; the source, if
  there is one, is stopped; the driver is notified reset-complete if it is alive.  All
  other members, among them the audio sink, the native window, the closed-caption
  decoder and the driver reference, are unchanged.
\<close>

theorem performReset_effect:
  "(mAudioDecoder s \<noteq> None \<or> mVideoDecoder s \<noteq> None \<longrightarrow> performReset s = Inl CHECK_failed)
   \<and> (mAudioDecoder s = None \<and> mVideoDecoder s = None
      \<longrightarrow> performReset s =
            Inr (s\<lparr>mSource := None, mRenderer := None, mRendererLooper := None,
                   mScanSourcesPending := False,
                   mScanSourcesGeneration := mScanSourcesGeneration s + 1,
                   mPollDurationGeneration := mPollDurationGeneration s + 1,
                   mStarted := False,
                   calls := calls s
                     @ (case mRendererLooper s of
                          None \<Rightarrow> []
                        | Some looper \<Rightarrow>
                            (case mRenderer s of
                               None \<Rightarrow> []
                             | Some (Renderer rid) \<Rightarrow> [ALooper_unregisterHandler rid])
                            @ [ALooper_stop])
                     @ (if mSource s \<noteq> None then [Source_stop] else [])
                     @ (if mDriver s = wp_live then [Driver_notifyResetComplete] else [])\<rparr>))"
proof (intro conjI impI)
  assume "mAudioDecoder s \<noteq> None \<or> mVideoDecoder s \<noteq> None"
  then show "performReset s = Inl CHECK_failed"
    by (auto simp: performReset_def)
next
  assume a: "mAudioDecoder s = None \<and> mVideoDecoder s = None"
  show "performReset s =
            Inr (s\<lparr>mSource := None, mRenderer := None, mRendererLooper := None,
                   mScanSourcesPending := False,
                   mScanSourcesGeneration := mScanSourcesGeneration s + 1,
                   mPollDurationGeneration := mPollDurationGeneration s + 1,
                   mStarted := False,
                   calls := calls s
                     @ (case mRendererLooper s of
                          None \<Rightarrow> []
                        | Some looper \<Rightarrow>
                            (case mRenderer s of
                               None \<Rightarrow> []
                             | Some (Renderer rid) \<Rightarrow> [ALooper_unregisterHandler rid])
                            @ [ALooper_stop])
                     @ (if mSource s \<noteq> None then [Source_stop] else [])
                     @ (if mDriver s = wp_live then [Driver_notifyResetComplete] else [])\<rparr>)"
    using a
    by (cases "mRendererLooper s"; cases "mRenderer s"; cases "mSource s"; cases "mDriver s")
      (auto simp: performReset_def cancelPollDuration_def emit_def Let_def
        split: Renderer.splits intro!: NuPlayer.equality)
qed

theorem performReset_effect_witness:
  "performReset example_before_reset = Inr example_after_reset
   \<and> performReset example_playing = Inl CHECK_failed"
  using performReset_effect [of example_before_reset] performReset_effect [of example_playing]
  by (simp add: example_after_reset_def example_before_reset_def example_playing_def
      NuPlayer_new_def)

subsection \<open>End of stream at the renderer\<close>

text \<open>
  C6.  On an EOS notification of the renderer the coordinator marks the EOS flag of the
  stream named in the message, calls \<open>notifyListener\<close> with \<open>MEDIA_ERROR\<close> when the final
  result is not \<open>ERROR_END_OF_STREAM\<close>, and with \<open>MEDIA_PLAYBACK_COMPLETE\<close> exactly when
  (audio is EOS or the audio decoder is absent) and (video is EOS or the video decoder
  is absent).  A notification reaches the driver when the driver is alive.
\<close>

theorem renderer_EOS:
  "findInt32 msg ''what'' = Some Renderer_kWhatEOS
     \<and> findInt32 msg ''audio'' = Some audio
     \<and> findInt32 msg ''finalResult'' = Some finalResult
   \<longrightarrow> onRendererNotify P msg s =
         Inr (s\<lparr>mAudioEOS := (mAudioEOS s \<or> audio \<noteq> 0),
                mVideoEOS := (mVideoEOS s \<or> audio = 0),
                calls := calls s
                  @ (if mDriver s = wp_live \<and> finalResult \<noteq> ERROR_END_OF_STREAM
                     then [Driver_notifyListener MEDIA_ERROR MEDIA_ERROR_UNKNOWN finalResult]
                     else [])
                  @ (if mDriver s = wp_live
                        \<and> (mAudioEOS s \<or> audio \<noteq> 0 \<or> mAudioDecoder s = None)
                        \<and> (mVideoEOS s \<or> audio = 0 \<or> mVideoDecoder s = None)
                     then [Driver_notifyListener MEDIA_PLAYBACK_COMPLETE 0 0]
                     else [])\<rparr>)"
proof (intro impI, elim conjE)
  assume a: "findInt32 msg ''what'' = Some Renderer_kWhatEOS"
    "findInt32 msg ''audio'' = Some audio" "findInt32 msg ''finalResult'' = Some finalResult"
  show "onRendererNotify P msg s =
         Inr (s\<lparr>mAudioEOS := (mAudioEOS s \<or> audio \<noteq> 0),
                mVideoEOS := (mVideoEOS s \<or> audio = 0),
                calls := calls s
                  @ (if mDriver s = wp_live \<and> finalResult \<noteq> ERROR_END_OF_STREAM
                     then [Driver_notifyListener MEDIA_ERROR MEDIA_ERROR_UNKNOWN finalResult]
                     else [])
                  @ (if mDriver s = wp_live
                        \<and> (mAudioEOS s \<or> audio \<noteq> 0 \<or> mAudioDecoder s = None)
                        \<and> (mVideoEOS s \<or> audio = 0 \<or> mVideoDecoder s = None)
                     then [Driver_notifyListener MEDIA_PLAYBACK_COMPLETE 0 0]
                     else [])\<rparr>)"
    unfolding onRendererNotify_def a option.case
    by (cases "mDriver s"; cases "audio = 0"; cases "finalResult = ERROR_END_OF_STREAM")
      (auto simp: notifyListener_def emit_def Let_def intro!: NuPlayer.equality)
qed

theorem renderer_EOS_witness:
  "onRendererNotify example_platform (example_EOS 1 ERROR_END_OF_STREAM) example_playing
     = Inr (example_playing\<lparr>mAudioEOS := True\<rparr>)
   \<and> onRendererNotify example_platform (example_EOS 0 UNKNOWN_ERROR)
       (example_playing\<lparr>mAudioEOS := True\<rparr>)
     = Inr (example_playing
              \<lparr>mAudioEOS := True, mVideoEOS := True,
               calls := [Driver_notifyListener MEDIA_ERROR MEDIA_ERROR_UNKNOWN UNKNOWN_ERROR,
                         Driver_notifyListener MEDIA_PLAYBACK_COMPLETE 0 0]\<rparr>)
   \<and> onRendererNotify example_platform (example_EOS 0 ERROR_END_OF_STREAM)
       (example_playing\<lparr>mAudioDecoder := None\<rparr>)
     = Inr (example_playing
              \<lparr>mAudioDecoder := None, mVideoEOS := True,
               calls := [Driver_notifyListener MEDIA_PLAYBACK_COMPLETE 0 0]\<rparr>)"
  using
    renderer_EOS [of "example_EOS 1 ERROR_END_OF_STREAM" 1 ERROR_END_OF_STREAM
      example_platform example_playing]
    renderer_EOS [of "example_EOS 0 UNKNOWN_ERROR" 0 UNKNOWN_ERROR
      example_platform "example_playing\<lparr>mAudioEOS := True\<rparr>"]
    renderer_EOS [of "example_EOS 0 ERROR_END_OF_STREAM" 0 ERROR_END_OF_STREAM
      example_platform "example_playing\<lparr>mAudioDecoder := None\<rparr>"]
  by (simp add: example_EOS_def findInt32_def example_playing_def NuPlayer_new_def
      UNKNOWN_ERROR_def ERROR_END_OF_STREAM_def)

subsection \<open>Tear-down of audio offload\<close>

text \<open>
  The claim C7 says that after an \<open>AudioOffloadTearDown\<close> notification the audio decoder
  is a fresh decoder that is not pass-through.  \<open>instantiateDecoder\<close> returns
  \<^verbatim>\<open>-EWOULDBLOCK\<close> without creating a decoder when the source has no audio format, and the
  handler does not look at what it returns: here the audio decoder is absent afterwards.
\<close>

theorem teardown_without_format:
  "onRendererNotify example_platform example_teardown example_offloading_no_format
     = Inr (example_offloading_no_format
              \<lparr>mOffloadAudio := False, mAudioDecoder := None, mTimedTextGeneration := 1,
               calls := [AudioSink_close, Renderer_flush True, Renderer_flush False,
                         Renderer_signalDisableOffloadAudio, Source_seekTo 12345000,
                         Driver_notifyPosition 12345000, Driver_notifySeekComplete]\<rparr>)"
  by (simp add: example_teardown_def example_offloading_no_format_def example_offloading_def
      example_playing_def example_source_def NuPlayer_new_def onRendererNotify_def
      findInt32_def findInt64_def closeAudioSink_def performSeek_def instantiateDecoder_def
      getDecoder_def getFormat_def andThen_def emit_def
      Renderer_kWhatAudioOffloadTearDown_def Renderer_kWhatEOS_def Renderer_kWhatPosition_def
      Renderer_kWhatFlushComplete_def Renderer_kWhatVideoRenderingStart_def
      Renderer_kWhatMediaRenderingStart_def AUDIO_INFO_INITIALIZER_def)

text \<open>
  C7, amended.  On an \<open>AudioOffloadTearDown\<close> notification with position \<open>positionUs\<close> (sink,
  renderer and source present) the coordinator, in this order: closes the audio sink;
  clears the audio decoder; flushes audio on the renderer and, if there is a video
  decoder, video; disables offload on the renderer; sets \<open>mOffloadAudio\<close> to false; does
  \<open>performSeek positionUs\<close>; and calls \<open>instantiateDecoder\<close> for audio.  Afterwards
  \<open>mOffloadAudio\<close> is false.  If the source has an audio format, the audio decoder is a new
  \<open>Decoder\<close> (not pass-through) of the next generation, initialised and configured with
  that format; if it has none, the audio decoder is absent.
\<close>

theorem audio_offload_teardown:
  "findInt32 msg ''what'' = Some Renderer_kWhatAudioOffloadTearDown
     \<and> findInt64 msg ''positionUs'' = Some positionUs
     \<and> mAudioSink s = Some sink \<and> mRenderer s = Some r \<and> mSource s = Some src
   \<longrightarrow> onRendererNotify P msg s =
         Inr (case getFormat src True of
                None \<Rightarrow>
                  s\<lparr>mCurrentOffloadInfo := AUDIO_INFO_INITIALIZER,
                    mOffloadAudio := False,
                    mAudioDecoder := None,
                    mTimedTextGeneration := mTimedTextGeneration s + 1,
                    calls := calls s
                      @ [AudioSink_close, Renderer_flush True]
                      @ (if mVideoDecoder s \<noteq> None then [Renderer_flush False] else [])
                      @ [Renderer_signalDisableOffloadAudio, Source_seekTo positionUs]
                      @ (if mDriver s = wp_live
                         then [Driver_notifyPosition positionUs, Driver_notifySeekComplete]
                         else [])\<rparr>
              | Some fmt \<Rightarrow>
                  let decoder =
                        Decoder (setInt32 ''generation'' (mAudioDecoderGeneration s + 1)
                                   (AMessage kWhatAudioNotify (handlerID s) [])) None
                  in
                  s\<lparr>mCurrentOffloadInfo := AUDIO_INFO_INITIALIZER,
                    mOffloadAudio := False,
                    mAudioDecoder := Some decoder,
                    mAudioDecoderGeneration := mAudioDecoderGeneration s + 1,
                    mTimedTextGeneration := mTimedTextGeneration s + 1,
                    calls := calls s
                      @ [AudioSink_close, Renderer_flush True]
                      @ (if mVideoDecoder s \<noteq> None then [Renderer_flush False] else [])
                      @ [Renderer_signalDisableOffloadAudio, Source_seekTo positionUs]
                      @ (if mDriver s = wp_live
                         then [Driver_notifyPosition positionUs, Driver_notifySeekComplete]
                         else [])
                      @ [Decoder_init decoder, Decoder_configure decoder fmt]\<rparr>)"
proof (intro impI, elim conjE)
  assume a: "findInt32 msg ''what'' = Some Renderer_kWhatAudioOffloadTearDown"
    "findInt64 msg ''positionUs'' = Some positionUs"
    "mAudioSink s = Some sink" "mRenderer s = Some r" "mSource s = Some src"
  have kinds: "Renderer_kWhatAudioOffloadTearDown \<noteq> Renderer_kWhatEOS"
    "Renderer_kWhatAudioOffloadTearDown \<noteq> Renderer_kWhatPosition"
    "Renderer_kWhatAudioOffloadTearDown \<noteq> Renderer_kWhatFlushComplete"
    "Renderer_kWhatAudioOffloadTearDown \<noteq> Renderer_kWhatVideoRenderingStart"
    "Renderer_kWhatAudioOffloadTearDown \<noteq> Renderer_kWhatMediaRenderingStart"
    by (simp_all add: Renderer_kWhatAudioOffloadTearDown_def Renderer_kWhatEOS_def
        Renderer_kWhatPosition_def Renderer_kWhatFlushComplete_def
        Renderer_kWhatVideoRenderingStart_def Renderer_kWhatMediaRenderingStart_def)
  show "onRendererNotify P msg s =
         Inr (case getFormat src True of
                None \<Rightarrow>
                  s\<lparr>mCurrentOffloadInfo := AUDIO_INFO_INITIALIZER,
                    mOffloadAudio := False,
                    mAudioDecoder := None,
                    mTimedTextGeneration := mTimedTextGeneration s + 1,
                    calls := calls s
                      @ [AudioSink_close, Renderer_flush True]
                      @ (if mVideoDecoder s \<noteq> None then [Renderer_flush False] else [])
                      @ [Renderer_signalDisableOffloadAudio, Source_seekTo positionUs]
                      @ (if mDriver s = wp_live
                         then [Driver_notifyPosition positionUs, Driver_notifySeekComplete]
                         else [])\<rparr>
              | Some fmt \<Rightarrow>
                  let decoder =
                        Decoder (setInt32 ''generation'' (mAudioDecoderGeneration s + 1)
                                   (AMessage kWhatAudioNotify (handlerID s) [])) None
                  in
                  s\<lparr>mCurrentOffloadInfo := AUDIO_INFO_INITIALIZER,
                    mOffloadAudio := False,
                    mAudioDecoder := Some decoder,
                    mAudioDecoderGeneration := mAudioDecoderGeneration s + 1,
                    mTimedTextGeneration := mTimedTextGeneration s + 1,
                    calls := calls s
                      @ [AudioSink_close, Renderer_flush True]
                      @ (if mVideoDecoder s \<noteq> None then [Renderer_flush False] else [])
                      @ [Renderer_signalDisableOffloadAudio, Source_seekTo positionUs]
                      @ (if mDriver s = wp_live
                         then [Driver_notifyPosition positionUs, Driver_notifySeekComplete]
                         else [])
                      @ [Decoder_init decoder, Decoder_configure decoder fmt]\<rparr>)"
    unfolding onRendererNotify_def a option.case
    using a(3-5) kinds
    by (cases "mDriver s"; cases "getFormat src True"; cases "mVideoDecoder s")
      (auto simp: closeAudioSink_def performSeek_def instantiateDecoder_def getDecoder_def
        setDecoder_def andThen_def emit_def Let_def intro!: NuPlayer.equality)
qed

theorem audio_offload_teardown_witness:
  "onRendererNotify example_platform example_teardown example_offloading
     = Inr (example_offloading
              \<lparr>mOffloadAudio := False,
               mAudioDecoder :=
                 Some (Decoder (AMessage kWhatAudioNotify 1 [(''generation'', Int32 2)]) None),
               mAudioDecoderGeneration := 2, mTimedTextGeneration := 1,
               calls := [AudioSink_close, Renderer_flush True, Renderer_flush False,
                         Renderer_signalDisableOffloadAudio, Source_seekTo 12345000,
                         Driver_notifyPosition 12345000, Driver_notifySeekComplete,
                         Decoder_init
                           (Decoder (AMessage kWhatAudioNotify 1 [(''generation'', Int32 2)])
                              None),
                         Decoder_configure
                           (Decoder (AMessage kWhatAudioNotify 1 [(''generation'', Int32 2)])
                              None)
                           example_audio_format]\<rparr>)"
  using audio_offload_teardown [of example_teardown 12345000 example_offloading example_sink
      "Renderer 2" example_source example_platform]
  by (simp add: example_teardown_def example_offloading_def example_playing_def
      example_source_def NuPlayer_new_def findInt32_def findInt64_def getFormat_def
      setInt32_def setItem_def AUDIO_INFO_INITIALIZER_def Let_def)

subsection \<open>Opening the audio sink for offload\<close>









text \<open>
  On the platform \<open>example_platform_other_padding\<close> the padding of the local struct holds
  the bytes 255 at the first call of \<^verbatim>\<open>openAudioSink\<close> and zero afterwards.  The first call
  leaves the state \<open>example_offloaded_other_padding\<close>, and a second call with the same
  format closes the sink and opens it again.
\<close>

lemma example_offloaded_other_padding_first:
  "openAudioSink example_platform_other_padding (Some example_audio_format) True
     example_offloading
     = Inr example_offloaded_other_padding"
  by (simp add: openAudioSink_def openAudioSink_pcm_def openAudioSink_offloadInfo_def
      example_offloaded_other_padding_def example_offload_info_def example_offload_calls_def
      example_platform_other_padding_def
      example_offloading_def example_playing_def NuPlayer_new_def
      example_audio_format_def example_platform_def example_sink_def example_source_def
      findInt32_def findInt64_def findString_def c_str_def andThen_def emit_def Let_def
      AUDIO_INFO_INITIALIZER_def CHANNEL_MASK_USE_CHANNEL_ORDER_def AUDIO_FORMAT_AAC_def
      AUDIO_STREAM_MUSIC_def AUDIO_OUTPUT_FLAG_NONE_def AUDIO_OUTPUT_FLAG_COMPRESS_OFFLOAD_def
      AUDIO_OUTPUT_FLAG_DEEP_BUFFER_def OK_def)

lemma example_offloaded_other_padding_second:
  "openAudioSink example_platform_other_padding (Some example_audio_format) True
     example_offloaded_other_padding
     = Inr (example_offloaded
              \<lparr>calls := example_offload_calls (replicate 6 255)
                          @ example_offload_calls (replicate 6 0)\<rparr>)"
  by (simp add: openAudioSink_def openAudioSink_pcm_def openAudioSink_offloadInfo_def
      example_offloaded_other_padding_def example_offloaded_def
      example_offload_info_def example_offload_calls_def
      example_platform_other_padding_def
      example_offloading_def example_playing_def NuPlayer_new_def
      example_audio_format_def example_platform_def example_sink_def example_source_def
      findInt32_def findInt64_def findString_def c_str_def andThen_def emit_def Let_def
      AUDIO_INFO_INITIALIZER_def CHANNEL_MASK_USE_CHANNEL_ORDER_def AUDIO_FORMAT_AAC_def
      AUDIO_STREAM_MUSIC_def AUDIO_OUTPUT_FLAG_NONE_def AUDIO_OUTPUT_FLAG_COMPRESS_OFFLOAD_def
      AUDIO_OUTPUT_FLAG_DEEP_BUFFER_def OK_def)




subsection \<open>Feeding a decoder: the replies\<close>

lemma wouldblock_not_OK: "- EWOULDBLOCK \<noteq> OK" "OK \<noteq> - EWOULDBLOCK"
  by (simp_all add: EWOULDBLOCK_def OK_def)

lemma replies_err: "replies r (AMessage_post (setInt32 ''err'' e r) 0)"
  by (simp add: replies_def setInt32_def setItem_def findInt32_def update_conv')

lemma replies_buffer: "replies r (AMessage_post (setBuffer ''buffer'' b r) 0)"
  by (simp add: replies_def setBuffer_def setItem_def findBuffer_def update_conv')

lemma fed_Inl: "fed reply before (Inl e)"
  by (simp add: fed_def)

lemma fed_wouldblock: "calls s' = before \<Longrightarrow> fed reply before (Inr (- EWOULDBLOCK, s'))"
  by (simp add: fed_def)

lemma fed_andThen:
  "(\<And>s'. r = Inr s' \<Longrightarrow> fed reply before (f s')) \<Longrightarrow> fed reply before (andThen r f)"
  by (cases r) (simp_all add: andThen_def fed_Inl)

lemma replyErr_fed:
  assumes "prefix before (calls s)"
  shows "fed reply before (andThen (replyErr reply err s) (\<lambda>s1. Inr (OK, s1)))"
proof (cases reply)
  case None
  then show ?thesis by (simp add: replyErr_def postReply_def andThen_def fed_Inl)
next
  case (Some r)
  from assms obtain zs where "calls s = before @ zs" by (auto simp: prefix_def)
  with Some show ?thesis
    by (simp add: fed_def replyErr_def postReply_def andThen_def emit_def wouldblock_not_OK
        replies_err)
qed

lemma flushDecoder_calls:
  "flushDecoder audio needShutdown newFormat s = Inr s' \<Longrightarrow> prefix (calls s) (calls s')"
  by (auto simp: flushDecoder_def emit_def Let_def split: option.splits if_splits)

lemma flushDecoder_reply_fed:
  assumes "calls s = before"
  shows "fed reply before
           (andThen (flushDecoder audio needShutdown newFormat s)
              (\<lambda>s5. andThen (replyErr reply err s5) (\<lambda>s6. Inr (OK, s6))))"
proof (rule fed_andThen)
  fix s' assume "flushDecoder audio needShutdown newFormat s = Inr s'"
  from flushDecoder_calls [OF this] assms
  show "fed reply before (andThen (replyErr reply err s') (\<lambda>s6. Inr (OK, s6)))"
    by (intro replyErr_fed) simp
qed

lemma updateDecoderFormatWithoutFlush_calls:
  "prefix (calls s) (calls (updateDecoderFormatWithoutFlush audio fmt s))"
  by (simp add: updateDecoderFormatWithoutFlush_def emit_def split: option.splits)

lemma fed_Let:
  "(\<And>x. x = a \<Longrightarrow> fed reply before (f x)) \<Longrightarrow> fed reply before (Let a f)"
  by simp

lemma feedDecoderInputData_error_fed:
  "fed reply (calls s) (feedDecoderInputData_error P audio reply err accessUnit src s)"
proof (cases "err = INFO_DISCONTINUITY")
  case False
  then show ?thesis
    by (simp add: feedDecoderInputData_error_def replyErr_fed)
next
  case True
  show ?thesis
  proof (cases accessUnit)
    case None
    with True show ?thesis by (simp add: feedDecoderInputData_error_def fed_Inl)
  next
    case (Some au)
    show ?thesis
    proof (cases "findInt32 (meta au) ''discontinuity''")
      case None
      with True Some show ?thesis by (simp add: feedDecoderInputData_error_def fed_Inl)
    next
      case (Some type)
      from True \<open>accessUnit = Some au\<close> Some show ?thesis
        unfolding feedDecoderInputData_error_def
        apply (simp only: if_True option.case simp_thms)
        apply (rule fed_Let, rule fed_Let, rule fed_Let, rule fed_Let, rule fed_Let,
            rule fed_Let)
        apply (rule fed_andThen)
        apply (rule fed_Let, rule fed_Let, rule fed_Let)
        subgoal premises p
          for formatChange0 timeChange s1 s2 s3 newFormat seamless formatChange shutdownOrFlush s4
        proof -
          have "calls s1 = calls s" by (simp add: p(6))
          then have "calls s2 = calls s" by (simp add: p(7) split: option.split)
          then have "calls s3 = calls s" by (simp add: p(8))
          then have c4: "calls s4 = calls s" by (simp add: p(13))
          from updateDecoderFormatWithoutFlush_calls [of s4 audio newFormat] c4
          have "prefix (calls s) (calls (updateDecoderFormatWithoutFlush audio newFormat s4))"
            by simp
          then show ?thesis
            by (simp add: flushDecoder_reply_fed [OF c4] fed_wouldblock [OF c4] replyErr_fed)
        qed
        done
    qed
  qed
qed

lemma feedDecoderInputData_deliver_fed:
  "fed reply (calls s) (feedDecoderInputData_deliver audio reply accessUnit s)"
proof (cases reply)
  case None
  then show ?thesis
    by (auto simp: feedDecoderInputData_deliver_def andThen_def postReply_def fed_Inl
        split: option.splits)
next
  case (Some r)
  then show ?thesis
    by (auto simp: feedDecoderInputData_deliver_def andThen_def postReply_def fed_def emit_def
        wouldblock_not_OK replies_buffer split: option.splits)
qed

lemma feedDecoderInputData_error_fed':
  "calls s = before \<Longrightarrow>
     fed reply before (feedDecoderInputData_error P audio reply err accessUnit src s)"
  using feedDecoderInputData_error_fed by blast

lemma feedDecoderInputData_deliver_fed':
  "calls s = before \<Longrightarrow> fed reply before (feedDecoderInputData_deliver audio reply accessUnit s)"
  using feedDecoderInputData_deliver_fed by blast

lemma feedDecoderInputData_loop_fed:
  assumes "feedDecoderInputData_loop P audio reply s = Some res"
  shows "fed reply (calls s) res"
proof -
  have "(\<lambda>(((P, audio), reply), s) res. fed reply (calls s) res) (((P, audio), reply), s) res"
  proof (rule feedDecoderInputData_loop.raw_induct [OF _ assms], simp only: prod.case)
    fix f :: "platform \<Rightarrow> bool \<Rightarrow> amessage option \<Rightarrow> NuPlayer
                \<Rightarrow> (abort + status_t \<times> NuPlayer) option"
      and P :: platform and audio :: bool and reply :: "amessage option" and s :: NuPlayer
      and res :: "abort + status_t \<times> NuPlayer"
    assume IH: "\<And>P audio reply s y. f P audio reply s = Some y \<Longrightarrow> fed reply (calls s) y"
    assume body: "(case mSource s of
        None \<Rightarrow> Some (Inl NULL_dereference)
      | Some src0 \<Rightarrow>
          let err = fst (fst (dequeueAccessUnit src0 audio));
              accessUnit = snd (fst (dequeueAccessUnit src0 audio));
              src = snd (dequeueAccessUnit src0 audio);
              s1 = s\<lparr>mSource := Some src\<rparr>
          in
            if err = - EWOULDBLOCK then Some (Inr (err, s1))
            else if err \<noteq> OK
            then Some (feedDecoderInputData_error P audio reply err accessUnit src s1)
            else
              let s2 = (if \<not> audio then s1\<lparr>mNumFramesTotal := mNumFramesTotal s1 + 1\<rparr>
                        else s1)
              in
                if \<not> audio \<and> \<not> (mSourceFlags s2 AND FLAG_SECURE \<noteq> 0)
                     \<and> 100000 <s mVideoLateByUs s2 \<and> mVideoIsAVC s2
                then
                  (case accessUnit of
                     None \<Rightarrow> Some (Inl NULL_dereference)
                   | Some au \<Rightarrow>
                       if \<not> IsAVCReferenceFrame P au
                       then f P audio reply
                              (s2\<lparr>mNumFramesDropped := mNumFramesDropped s2 + 1\<rparr>)
                       else Some (feedDecoderInputData_deliver audio reply accessUnit s2))
                else Some (feedDecoderInputData_deliver audio reply accessUnit s2)) = Some res"
    show "fed reply (calls s) res"
    proof (cases "mSource s")
      case None
      with body show ?thesis by (auto simp: fed_Inl)
    next
      case (Some src0)
      with body show ?thesis
        by (auto simp: Let_def fed_wouldblock fed_Inl feedDecoderInputData_error_fed'
            feedDecoderInputData_deliver_fed'
            split: if_splits option.splits dest!: IH)
    qed
  qed
  then show ?thesis by simp
qed

text \<open>
  C8.  When \<open>feedDecoderInputData\<close> is called for a stream whose flush status is not
  \<open>NONE\<close>, the reply in the request is posted at once with \<open>err = INFO_DISCONTINUITY\<close>, no
  access unit is dequeued, and the result is \<open>OK\<close>.  When the source hands out an error
  status, the reply is posted with that status and the result is \<open>OK\<close> again.  In
  general a call that returns gives \<open>OK\<close> or would-block; with would-block it has made
  no call at all, so whenever it has written a reply its result is \<open>OK\<close>: the result
  says that the reply is taken care of, not that data was delivered.
\<close>

theorem feedDecoderInputData_replies:
  "(findMessage msg ''reply'' = Some (Some r)
      \<and> (if audio then mFlushingAudio s else mFlushingVideo s) \<noteq> NONE
    \<longrightarrow> feedDecoderInputData P audio msg s =
          Some (Inr (OK, s\<lparr>calls := calls s
                             @ [AMessage_post (setInt32 ''err'' INFO_DISCONTINUITY r) 0]\<rparr>)))
   \<and> (findMessage msg ''reply'' = Some (Some r)
      \<and> (if audio then mFlushingAudio s else mFlushingVideo s) = NONE
      \<and> mSource s = Some src
      \<and> fst (dequeueAccessUnit src audio) = (err, accessUnit)
      \<and> err \<noteq> OK \<and> err \<noteq> - EWOULDBLOCK \<and> err \<noteq> INFO_DISCONTINUITY
    \<longrightarrow> feedDecoderInputData P audio msg s =
          Some (Inr (OK, s\<lparr>mSource := Some (snd (dequeueAccessUnit src audio)),
                           calls := calls s @ [AMessage_post (setInt32 ''err'' err r) 0]\<rparr>)))
   \<and> (\<forall>rv s'. feedDecoderInputData P audio msg s = Some (Inr (rv, s'))
        \<longrightarrow> (rv = OK \<or> rv = - EWOULDBLOCK)
            \<and> (rv = - EWOULDBLOCK \<longrightarrow> calls s' = calls s)
            \<and> (calls s' \<noteq> calls s
                \<longrightarrow> rv = OK
                    \<and> (\<exists>r. findMessage msg ''reply'' = Some (Some r)
                           \<and> replies r (last (calls s')))))"
proof (intro conjI impI allI)
  assume "findMessage msg ''reply'' = Some (Some r)
      \<and> (if audio then mFlushingAudio s else mFlushingVideo s) \<noteq> NONE"
  then show "feedDecoderInputData P audio msg s =
          Some (Inr (OK, s\<lparr>calls := calls s
                             @ [AMessage_post (setInt32 ''err'' INFO_DISCONTINUITY r) 0]\<rparr>))"
    by (auto simp: feedDecoderInputData_def replyErr_def postReply_def andThen_def emit_def
        split: if_splits)
next
  assume a: "findMessage msg ''reply'' = Some (Some r)
      \<and> (if audio then mFlushingAudio s else mFlushingVideo s) = NONE
      \<and> mSource s = Some src
      \<and> fst (dequeueAccessUnit src audio) = (err, accessUnit)
      \<and> err \<noteq> OK \<and> err \<noteq> - EWOULDBLOCK \<and> err \<noteq> INFO_DISCONTINUITY"
  then have "feedDecoderInputData P audio msg s = feedDecoderInputData_loop P audio (Some r) s"
    by (auto simp: feedDecoderInputData_def split: if_splits)
  also from a have "\<dots> = Some (feedDecoderInputData_error P audio (Some r) err accessUnit
                             (snd (dequeueAccessUnit src audio))
                             (s\<lparr>mSource := Some (snd (dequeueAccessUnit src audio))\<rparr>))"
    by (subst feedDecoderInputData_loop.simps) (simp add: Let_def)
  also from a have "\<dots> = Some (Inr (OK, s\<lparr>mSource := Some (snd (dequeueAccessUnit src audio)),
                           calls := calls s @ [AMessage_post (setInt32 ''err'' err r) 0]\<rparr>))"
    by (simp add: feedDecoderInputData_error_def replyErr_def postReply_def andThen_def
        emit_def)
  finally show "feedDecoderInputData P audio msg s =
          Some (Inr (OK, s\<lparr>mSource := Some (snd (dequeueAccessUnit src audio)),
                           calls := calls s @ [AMessage_post (setInt32 ''err'' err r) 0]\<rparr>))" .
next
  fix rv s'
  assume res: "feedDecoderInputData P audio msg s = Some (Inr (rv, s'))"
  then obtain reply where reply: "findMessage msg ''reply'' = Some reply"
    by (cases "findMessage msg ''reply''") (auto simp: feedDecoderInputData_def)
  have f: "fed reply (calls s) (Inr (rv, s'))"
  proof (cases "(audio \<and> mFlushingAudio s \<noteq> NONE) \<or> (\<not> audio \<and> mFlushingVideo s \<noteq> NONE)")
    case True
    with res reply have "Inr (rv, s')
        = andThen (replyErr reply INFO_DISCONTINUITY s) (\<lambda>s1. Inr (OK, s1))"
      by (simp add: feedDecoderInputData_def)
    with replyErr_fed [of "calls s" s reply INFO_DISCONTINUITY] show ?thesis by simp
  next
    case False
    with res reply have "feedDecoderInputData_loop P audio reply s = Some (Inr (rv, s'))"
      by (simp add: feedDecoderInputData_def)
    then show ?thesis by (rule feedDecoderInputData_loop_fed)
  qed
  from f show "rv = OK \<or> rv = - EWOULDBLOCK"
    by (auto simp: fed_def split: if_splits)
  from f show "rv = - EWOULDBLOCK \<Longrightarrow> calls s' = calls s"
    by (auto simp: fed_def split: if_splits)
  from f show "calls s' \<noteq> calls s \<Longrightarrow> rv = OK"
    by (auto simp: fed_def split: if_splits)
  from f reply show "calls s' \<noteq> calls s \<Longrightarrow>
      \<exists>r. findMessage msg ''reply'' = Some (Some r) \<and> replies r (last (calls s'))"
    by (cases reply) (auto simp: fed_def split: if_splits)
qed

theorem feedDecoderInputData_replies_witness:
  "feedDecoderInputData example_platform True (example_fill_request True)
       (example_playing\<lparr>mFlushingAudio := FLUSHING_DECODER\<rparr>)
     = Some (Inr (OK, example_playing
                        \<lparr>mFlushingAudio := FLUSHING_DECODER,
                         calls := [AMessage_post
                                     (AMessage 7 9 [(''err'', Int32 INFO_DISCONTINUITY)]) 0]\<rparr>))
   \<and> feedDecoderInputData example_platform True (example_fill_request True) example_audio_ended
     = Some (Inr (OK, example_playing
                        \<lparr>mSource := Some example_source,
                         calls := [AMessage_post
                                     (AMessage 7 9 [(''err'', Int32 ERROR_END_OF_STREAM)]) 0]\<rparr>))
   \<and> replies example_reply
         (AMessage_post (AMessage 7 9 [(''err'', Int32 ERROR_END_OF_STREAM)]) 0)"
  using
    feedDecoderInputData_replies [where msg = "example_fill_request True" and r = example_reply
      and audio = True and s = "example_playing\<lparr>mFlushingAudio := FLUSHING_DECODER\<rparr>"
      and P = example_platform]
    feedDecoderInputData_replies [where msg = "example_fill_request True" and r = example_reply
      and audio = True and s = example_audio_ended and P = example_platform
      and src = "example_source
                  \<lparr>src_accessUnits_audio :=
                     (ERROR_END_OF_STREAM, None) ## sconst (- EWOULDBLOCK, None)\<rparr>"
      and err = ERROR_END_OF_STREAM and accessUnit = None]
  by (simp add: example_fill_request_def example_reply_def example_audio_ended_def
      example_playing_def example_source_def NuPlayer_new_def findMessage_def
      dequeueAccessUnit_def setInt32_def setItem_def replies_def findInt32_def
      ERROR_END_OF_STREAM_def OK_def EWOULDBLOCK_def INFO_DISCONTINUITY_def)

subsection \<open>Feeding a decoder: late video frames\<close>

lemma feedDecoderInputData_loop_video:
  assumes "mSource s = Some src" and "shd (src_accessUnits_video src) = (OK, Some au)"
  shows "feedDecoderInputData_loop P False reply s =
           (if mSourceFlags s AND FLAG_SECURE = 0 \<and> 100000 <s mVideoLateByUs s
                 \<and> mVideoIsAVC s \<and> \<not> IsAVCReferenceFrame P au
            then feedDecoderInputData_loop P False reply
                   (s\<lparr>mSource :=
                        Some (src\<lparr>src_accessUnits_video := stl (src_accessUnits_video src)\<rparr>),
                      mNumFramesTotal := mNumFramesTotal s + 1,
                      mNumFramesDropped := mNumFramesDropped s + 1\<rparr>)
            else Some (feedDecoderInputData_deliver False reply (Some au)
                         (s\<lparr>mSource :=
                              Some (src\<lparr>src_accessUnits_video :=
                                           stl (src_accessUnits_video src)\<rparr>),
                            mNumFramesTotal := mNumFramesTotal s + 1\<rparr>)))"
  using assms
  by (subst feedDecoderInputData_loop.simps)
    (simp add: dequeueAccessUnit_def Let_def wouldblock_not_OK)

lemma feedDecoderInputData_loop_audio:
  assumes "mSource s = Some src" and "shd (src_accessUnits_audio src) = (OK, accessUnit)"
  shows "feedDecoderInputData_loop P True reply s =
           Some (feedDecoderInputData_deliver True reply accessUnit
                   (s\<lparr>mSource :=
                        Some (src\<lparr>src_accessUnits_audio :=
                                     stl (src_accessUnits_audio src)\<rparr>)\<rparr>))"
  using assms
  by (subst feedDecoderInputData_loop.simps)
    (simp add: dequeueAccessUnit_def Let_def wouldblock_not_OK)

lemma feedDecoderInputData_loop_late:
  assumes "mSourceFlags s AND FLAG_SECURE = 0" and "100000 <s mVideoLateByUs s"
    and "mVideoIsAVC s"
    and "\<forall>a \<in> set late. \<not> IsAVCReferenceFrame P a" and "IsAVCReferenceFrame P ref"
    and "mSource s = Some src"
    and "src_accessUnits_video src = map (\<lambda>a. (OK, Some a)) late @- ((OK, Some ref) ## rest)"
  shows "feedDecoderInputData_loop P False reply s =
           Some (feedDecoderInputData_deliver False reply (Some ref)
                   (s\<lparr>mSource := Some (src\<lparr>src_accessUnits_video := rest\<rparr>),
                      mNumFramesTotal := mNumFramesTotal s + of_nat (length late) + 1,
                      mNumFramesDropped := mNumFramesDropped s + of_nat (length late)\<rparr>))"
  using assms
proof (induction late arbitrary: s src)
  case Nil
  then show ?case
    by (simp add: feedDecoderInputData_loop_video [where au = ref])
next
  case (Cons a late)
  let ?src = "src\<lparr>src_accessUnits_video := stl (src_accessUnits_video src)\<rparr>"
  let ?s = "s\<lparr>mSource := Some ?src, mNumFramesTotal := mNumFramesTotal s + 1,
               mNumFramesDropped := mNumFramesDropped s + 1\<rparr>"
  from Cons.prems have step: "feedDecoderInputData_loop P False reply s
      = feedDecoderInputData_loop P False reply ?s"
    by (simp add: feedDecoderInputData_loop_video [where au = a])
  from Cons.prems have "feedDecoderInputData_loop P False reply ?s =
           Some (feedDecoderInputData_deliver False reply (Some ref)
                   (?s\<lparr>mSource := Some (?src\<lparr>src_accessUnits_video := rest\<rparr>),
                      mNumFramesTotal := mNumFramesTotal ?s + of_nat (length late) + 1,
                      mNumFramesDropped := mNumFramesDropped ?s + of_nat (length late)\<rparr>))"
    by (intro Cons.IH) simp_all
  with step show ?case
    by (simp add: add.commute add.left_commute)
qed

lemma feedDecoderInputData_deliver_video:
  assumes "mCCDecoder s = Some cc"
  shows "feedDecoderInputData_deliver False (Some r) accessUnit s =
           Inr (OK, s\<lparr>calls := calls s
                         @ [CCDecoder_decode accessUnit,
                            AMessage_post (setBuffer ''buffer'' accessUnit r) 0]\<rparr>)"
  using assms
  by (simp add: feedDecoderInputData_deliver_def andThen_def postReply_def emit_def)

lemma feedDecoderInputData_deliver_audio:
  "feedDecoderInputData_deliver True (Some r) accessUnit s =
     Inr (OK, s\<lparr>calls := calls s @ [AMessage_post (setBuffer ''buffer'' accessUnit r) 0]\<rparr>)"
  by (simp add: feedDecoderInputData_deliver_def andThen_def postReply_def emit_def)

text \<open>
  C5.  In \<open>feedDecoderInputData\<close>, every video access unit that is dequeued increments
  \<open>mNumFramesTotal\<close>.  The access unit is dropped, \<open>mNumFramesDropped\<close> incremented and the
  loop continued exactly when the stream is video, the source is not secure,
  \<open>mVideoLateByUs\<close> is above 100 ms, the video is AVC and the access unit is not an AVC
  reference frame; otherwise it is handed to the closed-caption decoder and delivered
  in the reply.  Audio access units are never dropped or counted.  After any number of
  late frames that are not reference frames, the next reference frame is delivered.
\<close>

theorem feedDecoderInputData_frames:
  "(findMessage msg ''reply'' = Some (Some r) \<and> mFlushingVideo s = NONE
      \<and> mSource s = Some src \<and> shd (src_accessUnits_video src) = (OK, Some au)
      \<and> (mSourceFlags s AND FLAG_SECURE = 0 \<and> 100000 <s mVideoLateByUs s
           \<and> mVideoIsAVC s \<and> \<not> IsAVCReferenceFrame P au)
    \<longrightarrow> feedDecoderInputData P False msg s =
          feedDecoderInputData P False msg
            (s\<lparr>mSource := Some (src\<lparr>src_accessUnits_video := stl (src_accessUnits_video src)\<rparr>),
               mNumFramesTotal := mNumFramesTotal s + 1,
               mNumFramesDropped := mNumFramesDropped s + 1\<rparr>))
   \<and> (findMessage msg ''reply'' = Some (Some r) \<and> mFlushingVideo s = NONE
      \<and> mSource s = Some src \<and> shd (src_accessUnits_video src) = (OK, Some au)
      \<and> \<not> (mSourceFlags s AND FLAG_SECURE = 0 \<and> 100000 <s mVideoLateByUs s
             \<and> mVideoIsAVC s \<and> \<not> IsAVCReferenceFrame P au)
      \<and> mCCDecoder s = Some cc
    \<longrightarrow> feedDecoderInputData P False msg s =
          Some (Inr (OK,
            s\<lparr>mSource := Some (src\<lparr>src_accessUnits_video := stl (src_accessUnits_video src)\<rparr>),
              mNumFramesTotal := mNumFramesTotal s + 1,
              calls := calls s
                @ [CCDecoder_decode (Some au),
                   AMessage_post (setBuffer ''buffer'' (Some au) r) 0]\<rparr>)))
   \<and> (findMessage msg ''reply'' = Some (Some r) \<and> mFlushingAudio s = NONE
      \<and> mSource s = Some src \<and> shd (src_accessUnits_audio src) = (OK, accessUnit)
    \<longrightarrow> feedDecoderInputData P True msg s =
          Some (Inr (OK,
            s\<lparr>mSource := Some (src\<lparr>src_accessUnits_audio := stl (src_accessUnits_audio src)\<rparr>),
              calls := calls s @ [AMessage_post (setBuffer ''buffer'' accessUnit r) 0]\<rparr>)))
   \<and> (findMessage msg ''reply'' = Some (Some r) \<and> mFlushingVideo s = NONE
      \<and> mSource s = Some src
      \<and> src_accessUnits_video src = map (\<lambda>a. (OK, Some a)) late @- ((OK, Some ref) ## rest)
      \<and> mSourceFlags s AND FLAG_SECURE = 0 \<and> 100000 <s mVideoLateByUs s \<and> mVideoIsAVC s
      \<and> (\<forall>a \<in> set late. \<not> IsAVCReferenceFrame P a) \<and> IsAVCReferenceFrame P ref
      \<and> mCCDecoder s = Some cc
    \<longrightarrow> feedDecoderInputData P False msg s =
          Some (Inr (OK,
            s\<lparr>mSource := Some (src\<lparr>src_accessUnits_video := rest\<rparr>),
              mNumFramesTotal := mNumFramesTotal s + of_nat (length late) + 1,
              mNumFramesDropped := mNumFramesDropped s + of_nat (length late),
              calls := calls s
                @ [CCDecoder_decode (Some ref),
                   AMessage_post (setBuffer ''buffer'' (Some ref) r) 0]\<rparr>)))"
proof (intro conjI impI; elim conjE)
  assume a: "findMessage msg ''reply'' = Some (Some r)" "mFlushingVideo s = NONE"
    "mSource s = Some src" "shd (src_accessUnits_video src) = (OK, Some au)"
    "mSourceFlags s AND FLAG_SECURE = 0" "100000 <s mVideoLateByUs s" "mVideoIsAVC s"
    "\<not> IsAVCReferenceFrame P au"
  then show "feedDecoderInputData P False msg s =
          feedDecoderInputData P False msg
            (s\<lparr>mSource := Some (src\<lparr>src_accessUnits_video := stl (src_accessUnits_video src)\<rparr>),
               mNumFramesTotal := mNumFramesTotal s + 1,
               mNumFramesDropped := mNumFramesDropped s + 1\<rparr>)"
    by (simp add: feedDecoderInputData_def feedDecoderInputData_loop_video [where au = au])
next
  assume a: "findMessage msg ''reply'' = Some (Some r)" "mFlushingVideo s = NONE"
    "mSource s = Some src" "shd (src_accessUnits_video src) = (OK, Some au)"
    "\<not> (mSourceFlags s AND FLAG_SECURE = 0 \<and> 100000 <s mVideoLateByUs s
             \<and> mVideoIsAVC s \<and> \<not> IsAVCReferenceFrame P au)"
    "mCCDecoder s = Some cc"
  then show "feedDecoderInputData P False msg s =
          Some (Inr (OK,
            s\<lparr>mSource := Some (src\<lparr>src_accessUnits_video := stl (src_accessUnits_video src)\<rparr>),
              mNumFramesTotal := mNumFramesTotal s + 1,
              calls := calls s
                @ [CCDecoder_decode (Some au),
                   AMessage_post (setBuffer ''buffer'' (Some au) r) 0]\<rparr>))"
    by (auto simp: feedDecoderInputData_def feedDecoderInputData_loop_video [where au = au]
        feedDecoderInputData_deliver_video [where cc = cc])
next
  assume a: "findMessage msg ''reply'' = Some (Some r)" "mFlushingAudio s = NONE"
    "mSource s = Some src" "shd (src_accessUnits_audio src) = (OK, accessUnit)"
  then show "feedDecoderInputData P True msg s =
          Some (Inr (OK,
            s\<lparr>mSource := Some (src\<lparr>src_accessUnits_audio := stl (src_accessUnits_audio src)\<rparr>),
              calls := calls s @ [AMessage_post (setBuffer ''buffer'' accessUnit r) 0]\<rparr>))"
    by (simp add: feedDecoderInputData_def
        feedDecoderInputData_loop_audio [where accessUnit = accessUnit]
        feedDecoderInputData_deliver_audio)
next
  assume a: "findMessage msg ''reply'' = Some (Some r)" "mFlushingVideo s = NONE"
    "mSource s = Some src"
    "src_accessUnits_video src = map (\<lambda>a. (OK, Some a)) late @- ((OK, Some ref) ## rest)"
    "mSourceFlags s AND FLAG_SECURE = 0" "100000 <s mVideoLateByUs s" "mVideoIsAVC s"
    "\<forall>a \<in> set late. \<not> IsAVCReferenceFrame P a" "IsAVCReferenceFrame P ref"
    "mCCDecoder s = Some cc"
  from a(1,2) have "feedDecoderInputData P False msg s
      = feedDecoderInputData_loop P False (Some r) s"
    by (simp add: feedDecoderInputData_def)
  also from a have "\<dots> = Some (feedDecoderInputData_deliver False (Some r) (Some ref)
                   (s\<lparr>mSource := Some (src\<lparr>src_accessUnits_video := rest\<rparr>),
                      mNumFramesTotal := mNumFramesTotal s + of_nat (length late) + 1,
                      mNumFramesDropped := mNumFramesDropped s + of_nat (length late)\<rparr>))"
    by (intro feedDecoderInputData_loop_late) simp_all
  also from a(10) have "\<dots> = Some (Inr (OK,
            s\<lparr>mSource := Some (src\<lparr>src_accessUnits_video := rest\<rparr>),
              mNumFramesTotal := mNumFramesTotal s + of_nat (length late) + 1,
              mNumFramesDropped := mNumFramesDropped s + of_nat (length late),
              calls := calls s
                @ [CCDecoder_decode (Some ref),
                   AMessage_post (setBuffer ''buffer'' (Some ref) r) 0]\<rparr>))"
    by (simp add: feedDecoderInputData_deliver_video [where cc = cc])
  finally show "feedDecoderInputData P False msg s =
          Some (Inr (OK,
            s\<lparr>mSource := Some (src\<lparr>src_accessUnits_video := rest\<rparr>),
              mNumFramesTotal := mNumFramesTotal s + of_nat (length late) + 1,
              mNumFramesDropped := mNumFramesDropped s + of_nat (length late),
              calls := calls s
                @ [CCDecoder_decode (Some ref),
                   AMessage_post (setBuffer ''buffer'' (Some ref) r) 0]\<rparr>))" .
qed

theorem feedDecoderInputData_frames_witness:
  "feedDecoderInputData example_platform False (example_fill_request False) example_late
     = feedDecoderInputData example_platform False (example_fill_request False)
         (example_late
            \<lparr>mSource :=
               Some (example_source
                       \<lparr>src_accessUnits_video :=
                          (OK, Some example_reference_frame) ## sconst (- EWOULDBLOCK, None)\<rparr>),
             mNumFramesTotal := 1, mNumFramesDropped := 1\<rparr>)
   \<and> feedDecoderInputData example_platform False (example_fill_request False)
         (example_late\<lparr>mVideoLateByUs := 100000\<rparr>)
     = Some (Inr (OK,
         example_late
           \<lparr>mVideoLateByUs := 100000,
            mSource :=
              Some (example_source
                      \<lparr>src_accessUnits_video :=
                         (OK, Some example_reference_frame) ## sconst (- EWOULDBLOCK, None)\<rparr>),
            mNumFramesTotal := 1,
            calls := [CCDecoder_decode (Some example_late_frame),
                      AMessage_post
                        (AMessage 7 9 [(''buffer'', Buffer (Some example_late_frame))]) 0]\<rparr>))
   \<and> feedDecoderInputData example_platform True (example_fill_request True)
         (example_late
            \<lparr>mSource :=
               Some (example_source
                       \<lparr>src_accessUnits_audio :=
                          (OK, Some example_late_frame) ## sconst (- EWOULDBLOCK, None)\<rparr>)\<rparr>)
     = Some (Inr (OK,
         example_late
           \<lparr>mSource := Some example_source,
            calls := [AMessage_post
                        (AMessage 7 9 [(''buffer'', Buffer (Some example_late_frame))]) 0]\<rparr>))
   \<and> feedDecoderInputData example_platform False (example_fill_request False) example_late
     = Some (Inr (OK,
         example_late
           \<lparr>mSource := Some example_source, mNumFramesTotal := 2, mNumFramesDropped := 1,
            calls := [CCDecoder_decode (Some example_reference_frame),
                      AMessage_post
                        (AMessage 7 9 [(''buffer'', Buffer (Some example_reference_frame))])
                        0]\<rparr>))"
proof -
  let ?video = "example_source
                  \<lparr>src_accessUnits_video :=
                     (OK, Some example_late_frame) ## (OK, Some example_reference_frame)
                       ## sconst (- EWOULDBLOCK, None)\<rparr>"
  let ?audio = "example_source
                  \<lparr>src_accessUnits_audio :=
                     (OK, Some example_late_frame) ## sconst (- EWOULDBLOCK, None)\<rparr>"
  let ?cc = "CCDecoder (AMessage kWhatClosedCaptionNotify 1 [])"
  note defs = example_fill_request_def example_reply_def example_late_def
    example_late_frame_def example_reference_frame_def example_playing_def
    example_source_def example_platform_def NuPlayer_new_def findMessage_def
    setBuffer_def setItem_def FLAG_SECURE_def
  note late = feedDecoderInputData_frames [where msg = "example_fill_request False"
      and r = example_reply and s = example_late and P = example_platform
      and src = ?video and au = example_late_frame and accessUnit = None
      and late = "[example_late_frame]" and ref = example_reference_frame
      and rest = "sconst (- EWOULDBLOCK, None)" and cc = ?cc]
  from late [THEN conjunct1]
  have dropped: "feedDecoderInputData example_platform False (example_fill_request False)
         example_late
     = feedDecoderInputData example_platform False (example_fill_request False)
         (example_late
            \<lparr>mSource :=
               Some (example_source
                       \<lparr>src_accessUnits_video :=
                          (OK, Some example_reference_frame) ## sconst (- EWOULDBLOCK, None)\<rparr>),
             mNumFramesTotal := 1, mNumFramesDropped := 1\<rparr>)"
    by (simp add: defs)
  from late [THEN conjunct2, THEN conjunct2, THEN conjunct2]
  have next_reference:
      "feedDecoderInputData example_platform False (example_fill_request False) example_late
     = Some (Inr (OK,
         example_late
           \<lparr>mSource := Some example_source, mNumFramesTotal := 2, mNumFramesDropped := 1,
            calls := [CCDecoder_decode (Some example_reference_frame),
                      AMessage_post
                        (AMessage 7 9 [(''buffer'', Buffer (Some example_reference_frame))])
                        0]\<rparr>))"
    by (simp add: defs)
  from feedDecoderInputData_frames [where msg = "example_fill_request False"
      and r = example_reply and s = "example_late\<lparr>mVideoLateByUs := 100000\<rparr>"
      and P = example_platform and src = ?video and au = example_late_frame
      and accessUnit = None and late = "[]" and ref = example_late_frame
      and rest = "sconst (- EWOULDBLOCK, None)" and cc = ?cc, THEN conjunct2, THEN conjunct1]
  have in_time: "feedDecoderInputData example_platform False (example_fill_request False)
         (example_late\<lparr>mVideoLateByUs := 100000\<rparr>)
     = Some (Inr (OK,
         example_late
           \<lparr>mVideoLateByUs := 100000,
            mSource :=
              Some (example_source
                      \<lparr>src_accessUnits_video :=
                         (OK, Some example_reference_frame) ## sconst (- EWOULDBLOCK, None)\<rparr>),
            mNumFramesTotal := 1,
            calls := [CCDecoder_decode (Some example_late_frame),
                      AMessage_post
                        (AMessage 7 9 [(''buffer'', Buffer (Some example_late_frame))]) 0]\<rparr>))"
    by (simp add: defs)
  from feedDecoderInputData_frames [where msg = "example_fill_request True"
      and r = example_reply and s = "example_late\<lparr>mSource := Some ?audio\<rparr>"
      and P = example_platform and src = ?audio and au = example_late_frame
      and accessUnit = "Some example_late_frame" and late = "[]"
      and ref = example_late_frame and rest = "sconst (- EWOULDBLOCK, None)" and cc = ?cc,
      THEN conjunct2, THEN conjunct2, THEN conjunct1]
  have audio: "feedDecoderInputData example_platform True (example_fill_request True)
         (example_late
            \<lparr>mSource :=
               Some (example_source
                       \<lparr>src_accessUnits_audio :=
                          (OK, Some example_late_frame) ## sconst (- EWOULDBLOCK, None)\<rparr>)\<rparr>)
     = Some (Inr (OK,
         example_late
           \<lparr>mSource := Some example_source,
            calls := [AMessage_post
                        (AMessage 7 9 [(''buffer'', Buffer (Some example_late_frame))]) 0]\<rparr>))"
    by (simp add: defs)
  from dropped in_time audio next_reference show ?thesis
    by (intro conjI)
qed

end
